theory Spec2Isabelle
  imports Main "HOL-Library.Sublist"
begin

section \<open>The Python runtime as far as sql2latex uses it\<close>

text \<open>
  Strings are lists of characters; a character is a code point below 256, which covers
  every ASCII script. A line feed is written \<open>\<newline>\<close> inside a literal, a backslash
  is the character \<open>CHR 0x5C\<close>.

  Exceptions are values: a function that can raise returns \<open>exn + 'a\<close>, with \<open>Inl\<close>
  for the exception. \<open>DatabaseError\<close> stands for \<open>oracledb.Error\<close>, whose single
  argument carries a code and a message.
\<close>

record dberror =
  code :: int
  message :: string

datatype exn = IndexError | ValueError | EOFError | DatabaseError dberror

subsection \<open>\<open>int(str)\<close>\<close>

text \<open>
  \<open>int\<close> on a string, base 10: whitespace on both sides is skipped, then an optional
  sign, then decimal digits, where single underscores may stand between digits.
  Anything else raises ValueError (\<open>None\<close> here). The whitespace of \<open>int\<close> is tab,
  line feed, vertical tab, form feed, carriage return and space, and the two other
  space characters below 256 (next line, no-break space). The interpreter refuses
  more than 4300 digits by default.
\<close>

definition int_space :: "char \<Rightarrow> bool" where
  "int_space c \<longleftrightarrow>
     c \<in> set [CHR 0x09, CHR 0x0A, CHR 0x0B, CHR 0x0C, CHR 0x0D, CHR 0x20, CHR 0x85, CHR 0xA0]"

definition is_digit :: "char \<Rightarrow> bool" where
  "is_digit c \<longleftrightarrow> c \<in> set ''0123456789''"

definition digit_val :: "char \<Rightarrow> nat" where
  "digit_val c = of_char c - 48"

fun digits_val :: "nat \<Rightarrow> string \<Rightarrow> nat" where
  "digits_val acc [] = acc"
| "digits_val acc (c # cs) = digits_val (10 * acc + digit_val c) cs"

fun no_double_underscore :: "string \<Rightarrow> bool" where
  "no_double_underscore (a # b # cs) \<longleftrightarrow>
     \<not> (a = CHR ''_'' \<and> b = CHR ''_'') \<and> no_double_underscore (b # cs)"
| "no_double_underscore _ \<longleftrightarrow> True"

definition int_body_ok :: "string \<Rightarrow> bool" where
  "int_body_ok body \<longleftrightarrow>
     body \<noteq> [] \<and> hd body \<noteq> CHR ''_'' \<and> last body \<noteq> CHR ''_'' \<and> no_double_underscore body"

definition int_max_str_digits :: nat where
  "int_max_str_digits = 4300"

definition py_int :: "string \<Rightarrow> int option" where
  "py_int s =
     (let t = dropWhile int_space s;
          (sgn, u) = (case t of
                        c # r \<Rightarrow> if c = CHR ''+'' then (1, r)
                                 else if c = CHR ''-'' then (- 1, r) else (1, t)
                      | [] \<Rightarrow> (1, t));
          body = takeWhile (\<lambda>c. is_digit c \<or> c = CHR ''_'') u;
          rest = dropWhile (\<lambda>c. is_digit c \<or> c = CHR ''_'') u;
          ds = filter is_digit body
      in if int_body_ok body \<and> list_all int_space rest \<and> length ds \<le> int_max_str_digits
         then Some (sgn * int (digits_val 0 ds))
         else None)"

subsection \<open>\<open>str(int)\<close>\<close>

definition digit_char :: "nat \<Rightarrow> char" where
  "digit_char d = ''0123456789'' ! d"

function show_nat :: "nat \<Rightarrow> string" where
  "show_nat n = (if n < 10 then [digit_char n] else show_nat (n div 10) @ [digit_char (n mod 10)])"
  by pat_completeness auto
termination
  by (relation "measure id") auto

definition show_int :: "int \<Rightarrow> string" where
  "show_int i = (if i < 0 then CHR ''-'' # show_nat (nat (- i)) else show_nat (nat i))"

subsection \<open>Reading a text file line by line\<close>

text \<open>
  \<open>for line in file\<close> yields the text cut after every line feed; each line keeps its
  line feed, and a last line without one is yielded as it is. The text is the file's
  content after the runtime's newline translation.
\<close>

fun readlines :: "string \<Rightarrow> string list" where
  "readlines [] = []"
| "readlines (c # cs) =
     (if c = CHR ''\<newline>'' then [c] # readlines cs
      else (case readlines cs of [] \<Rightarrow> [[c]] | l # ls \<Rightarrow> (c # l) # ls))"

section \<open>The script splitter\<close>

text \<open>
  \<open>parse_srcipts\<close>, lines 33 to 48. A task is a pair of a number and the lines of its
  block. The loop carries \<open>scripts\<close> (the closed tasks) and \<open>script\<close> (the block being
  accumulated). \<open>line[8:]\<close> is \<open>drop 8 line\<close>; \<open>scripts[-1]\<close> on the empty list raises
  IndexError.
\<close>

type_synonym task = "int \<times> string list"

abbreviation startswith :: "string \<Rightarrow> string \<Rightarrow> bool" where
  "startswith s p \<equiv> prefix p s"

definition task_num :: "string \<Rightarrow> int option" where
  "task_num line = py_int (drop 8 line)"

fun split_loop :: "string list \<Rightarrow> task list \<Rightarrow> string list \<Rightarrow> exn + (task list \<times> string list)" where
  "split_loop [] scripts script = Inr (scripts, script)"
| "split_loop (line # rest) scripts script =
     (if startswith line ''-- Task'' then
        (case task_num line of
           None \<Rightarrow> Inl ValueError
         | Some num \<Rightarrow>
             if script \<noteq> [] then split_loop rest (scripts @ [(num - 1, script)]) ([] @ [line])
             else split_loop rest scripts (script @ [line]))
      else split_loop rest scripts (script @ [line]))"

definition parse_lines :: "string list \<Rightarrow> exn + task list" where
  "parse_lines lines =
     (case split_loop lines [] [] of
        Inl e \<Rightarrow> Inl e
      | Inr (scripts, script) \<Rightarrow>
          if scripts = [] then Inl IndexError
          else Inr (scripts @ [(fst (last scripts) + 1, script)]))"

definition parse_srcipts :: "string \<Rightarrow> exn + task list" where
  "parse_srcipts content = parse_lines (readlines content)"

section \<open>Strings and output streams\<close>

abbreviation bsl :: char where
  "bsl \<equiv> CHR 0x5C"

text \<open>
  \<open>str.replace(old, new)\<close>: the occurrences of \<open>old\<close> are replaced from left to right
  without overlap; an empty \<open>old\<close> matches before every character and at the end.
\<close>

function replace_from :: "string \<Rightarrow> string \<Rightarrow> string \<Rightarrow> string" where
  "replace_from old new [] = []"
| "replace_from old new (c # cs) =
     (if old \<noteq> [] \<and> prefix old (c # cs)
      then new @ replace_from old new (drop (length old) (c # cs))
      else c # replace_from old new cs)"
  by pat_completeness auto
termination
  by (relation "measure (\<lambda>(old, new, s). length s)") (auto simp: neq_Nil_conv)

definition py_replace :: "string \<Rightarrow> string \<Rightarrow> string \<Rightarrow> string" where
  "py_replace s old new =
     (if old = [] then new @ concat (map (\<lambda>c. c # new) s) else replace_from old new s)"

text \<open>\<open>sep.join(xs)\<close> and \<open>s.split("\n")\<close>.\<close>

fun py_join :: "string \<Rightarrow> string list \<Rightarrow> string" where
  "py_join sep [] = []"
| "py_join sep [x] = x"
| "py_join sep (x # y # ys) = x @ sep @ py_join sep (y # ys)"

fun split_nl :: "string \<Rightarrow> string list" where
  "split_nl [] = [[]]"
| "split_nl (c # cs) =
     (if c = CHR ''\<newline>'' then [] # split_nl cs
      else (case split_nl cs of [] \<Rightarrow> [[c]] | l # ls \<Rightarrow> (c # l) # ls))"

text \<open>
  \<open>str.rstrip()\<close> removes trailing whitespace; for \<open>str\<close> methods the whitespace below
  256 is 0x09 to 0x0D, 0x1C to 0x20, 0x85 and 0xA0.
\<close>

definition str_space :: "char \<Rightarrow> bool" where
  "str_space c \<longleftrightarrow>
     c \<in> set [CHR 0x09, CHR 0x0A, CHR 0x0B, CHR 0x0C, CHR 0x0D, CHR 0x1C, CHR 0x1D, CHR 0x1E,
              CHR 0x1F, CHR 0x20, CHR 0x85, CHR 0xA0]"

definition rstrip :: "string \<Rightarrow> string" where
  "rstrip s = rev (dropWhile str_space (rev s))"

text \<open>\<open>str.strip()\<close> removes the whitespace at both ends.\<close>

definition py_strip :: "string \<Rightarrow> string" where
  "py_strip s = rstrip (dropWhile str_space s)"

text \<open>
  A \<open>set\<close> of strings is kept as the list of its elements, each of them once. \<open>add\<close>
  leaves a set that holds the element as it is. A \<open>for\<close> loop over the set meets every
  element once; the order is the interpreter's, given here by the rank it assigns to the
  elements of that set.
\<close>

definition set_add :: "string \<Rightarrow> string list \<Rightarrow> string list" where
  "set_add x s = (if x \<in> set s then s else s @ [x])"

definition set_iter :: "(string list \<Rightarrow> string \<Rightarrow> nat) \<Rightarrow> string list \<Rightarrow> string list" where
  "set_iter rank s = sort_key (rank s) s"

text \<open>
  The world of a run: what has been written to standard output and to the diagnostic
  stream, the lines still to be read by \<open>input()\<close>, and whether the database connection
  is open. \<open>print(s)\<close> writes \<open>s\<close> and a line feed.
\<close>

record world =
  out :: string
  err :: string
  inp :: "string list"
  conn_open :: bool

definition print_out :: "string \<Rightarrow> world \<Rightarrow> world" where
  "print_out s w = w\<lparr>out := out w @ s @ ''\<newline>''\<rparr>"

definition print_err :: "string \<Rightarrow> world \<Rightarrow> world" where
  "print_err s w = w\<lparr>err := err w @ s @ ''\<newline>''\<rparr>"

definition print_err_noeol :: "string \<Rightarrow> world \<Rightarrow> world" where
  "print_err_noeol s w = w\<lparr>err := err w @ s\<rparr>"

definition py_input :: "world \<Rightarrow> (exn + string) \<times> world" where
  "py_input w = (case inp w of [] \<Rightarrow> (Inl EOFError, w) | l # ls \<Rightarrow> (Inr l, w\<lparr>inp := ls\<rparr>))"

section \<open>The libraries and the database\<close>

text \<open>
  sqlparse, pylatexenc and oracledb are not part of the repository; the program is
  modelled over a \<open>runtime\<close> that supplies them. A token is its type (the path of names
  below \<open>sqlparse.tokens\<close>, where two types are the same object exactly when their paths
  are equal) and its text; \<open>sqlparse_parse q\<close> stands for \<open>sqlparse.parse(q)\<close>, each
  statement given by its flattened tokens. \<open>set_rank\<close> decides the order in which the
  interpreter goes through a set. A cursor after \<open>execute\<close> shows the names in its description (if
  it has one), what \<open>fetchall\<close> gives, and the row count; a cell is the text \<open>str\<close> gives
  for it. Opening a cursor, executing and fetching may each raise a database error;
  closing a cursor and closing the connection are taken to succeed.
\<close>

type_synonym token = "string list \<times> string"

definition Placeholder :: "string list" where
  "Placeholder = [''Name'', ''Placeholder'']"

record cursor =
  description :: "string list option"
  fetchall :: "dberror + string list list"
  rowcount :: int

record 'db runtime =
  unicode_to_latex :: "string \<Rightarrow> string"
  sqlparse_split :: "string \<Rightarrow> string list"
  sqlparse_parse :: "string \<Rightarrow> token list list"
  set_rank :: "string list \<Rightarrow> string \<Rightarrow> nat"
  init_oracle_client :: "dberror option"
  connect :: "dberror + 'db"
  open_cursor :: "'db \<Rightarrow> dberror option"
  execute :: "'db \<Rightarrow> string \<Rightarrow> (string \<rightharpoonup> string) \<Rightarrow> (dberror + cursor) \<times> 'db"

section \<open>The report renderer\<close>

text \<open>\<open>print_header\<close>, lines 51 to 66: the raw template with two chained replacements.\<close>

definition header_template :: string where
  "header_template =
     ''\<newline>'' @
     bsl # ''documentclass{article}\<newline>'' @
     bsl # ''usepackage{minted}\<newline>'' @
     bsl # ''usepackage{geometry}\<newline>'' @
     bsl # ''usepackage{amsmath}\<newline>'' @
     bsl # ''usepackage{tabularx}\<newline>'' @
     ''\<newline>'' @
     bsl # ''geometry{a4paper,left=1cm,right=1cm,top=2cm,bottom=2cm}\<newline>'' @
     bsl # ''author{AUTHOR}\<newline>'' @
     bsl # ''title{'' @ bsl # ''vspace{-2cm} TITLE}\<newline>'' @
     bsl # ''date{}\<newline>''"

definition header_text :: "string \<Rightarrow> string \<Rightarrow> string" where
  "header_text author title =
     py_replace (py_replace header_template ''AUTHOR'' author) ''TITLE'' title"

definition print_header :: "string \<Rightarrow> string \<Rightarrow> world \<Rightarrow> world" where
  "print_header author title w = print_out (header_text author title) w"

text \<open>
  \<open>sanitize_latex\<close>, lines 68 to 72. \<open>re.sub(r" {2,}", ...)\<close> scans from the left; where
  two or more spaces start, the whole run is matched and replaced by as many tildes.
\<close>

function re_sub_spaces :: "string \<Rightarrow> string" where
  "re_sub_spaces [] = []"
| "re_sub_spaces (c # cs) =
     (let run = takeWhile (\<lambda>x. x = CHR '' '') (c # cs)
      in if 2 \<le> length run
         then replicate (length run) (CHR ''~'') @
              re_sub_spaces (dropWhile (\<lambda>x. x = CHR '' '') (c # cs))
         else c # re_sub_spaces cs)"
  by pat_completeness auto
termination
  by (relation "measure length") (auto simp: length_dropWhile_le less_Suc_eq_le split: if_splits)

definition textbar :: string where
  "textbar = bsl # ''text{'' @ bsl # ''textbar}''"

definition sanitize_latex :: "(string \<Rightarrow> string) \<Rightarrow> string \<Rightarrow> string" where
  "sanitize_latex u2l string = re_sub_spaces (py_replace (u2l string) ''|'' textbar)"

text \<open>\<open>print_table\<close>, lines 74 to 86. \<open>print(a, b)\<close> writes \<open>a\<close>, a space and \<open>b\<close>.\<close>

definition header_cell :: "(string \<Rightarrow> string) \<Rightarrow> string \<Rightarrow> string" where
  "header_cell u2l col =
     bsl # ''multicolumn{1}{|c|}{'' @ bsl # ''textbf{'' @ sanitize_latex u2l col @ ''}}''"

definition row_line :: "(string \<Rightarrow> string) \<Rightarrow> string list \<Rightarrow> string" where
  "row_line u2l row = py_join '' & '' (map (sanitize_latex u2l) row) @ '' '' @ [bsl, bsl]"

definition print_row :: "(string \<Rightarrow> string) \<Rightarrow> string list \<Rightarrow> world \<Rightarrow> world" where
  "print_row u2l row w = print_out (bsl # ''hline'') (print_out (row_line u2l row) w)"

definition print_table :: "(string \<Rightarrow> string) \<Rightarrow> string list \<Rightarrow> string list list \<Rightarrow> world \<Rightarrow> world" where
  "print_table u2l column_names rows w =
     (let w = print_out (bsl # ''begin{center}'') w;
          w = print_out (bsl # ''begin{tabularx}{'' @ bsl # ''textwidth}{|'' @
                         concat (replicate (length column_names) ''X|'') @ ''}'') w;
          w = print_out (bsl # ''hline'') w;
          w = print_out (py_join '' & '' (map (header_cell u2l) column_names) @ '' '' @ [bsl, bsl]) w;
          w = print_out (bsl # ''hline'') w;
          w = fold (print_row u2l) rows w;
          w = print_out (bsl # ''end{tabularx}'') w
      in print_out (bsl # ''end{center}'') w)"

section \<open>The statement executor\<close>

text \<open>
  \<open>find_parameters\<close>, lines 88 to 96. \<open>sqlparse.parse(query)[0]\<close> raises IndexError when
  the parser returns no statement.
\<close>

definition find_parameters :: "(string \<Rightarrow> token list list) \<Rightarrow> string \<Rightarrow> exn + string list" where
  "find_parameters parse query =
     (case parse query of
        [] \<Rightarrow> Inl IndexError
      | tokens # _ \<Rightarrow>
          Inr (fold (\<lambda>token parameters.
                       if fst token = Placeholder \<and> startswith (snd token) '':''
                       then set_add (drop 1 (snd token)) parameters
                       else parameters)
                 tokens []))"

text \<open>
  \<open>process_script\<close>, lines 98 to 129. The prompt loop of lines 115 to 118 goes through
  the parameters in the order the set yields them.
\<close>

fun fill_params :: "string list \<Rightarrow> (string \<rightharpoonup> string) \<Rightarrow> world \<Rightarrow> (exn + (string \<rightharpoonup> string)) \<times> world" where
  "fill_params [] filled_params w = (Inr filled_params, w)"
| "fill_params (param # params) filled_params w =
     (case py_input (print_err_noeol ('':'' @ param @ ''='') w) of
        (Inl e, w') \<Rightarrow> (Inl e, w')
      | (Inr v, w') \<Rightarrow> fill_params params (filled_params(param \<mapsto> v)) w')"

text \<open>Lines 122 to 129: what is printed for an executed statement.\<close>

definition affected_line :: "int \<Rightarrow> string" where
  "affected_line n =
     bsl # ''textbf{'' @ show_int n @ ''} '' @ (if n = 1 then ''row'' else ''rows'') @ '' affected.''"

definition print_result :: "(string \<Rightarrow> string) \<Rightarrow> cursor \<Rightarrow> world \<Rightarrow> exn option \<times> world" where
  "print_result u2l cur w =
     (case description cur of
        Some column_names \<Rightarrow>
          (case fetchall cur of
             Inl e \<Rightarrow> (Some (DatabaseError e), w)
           | Inr rows \<Rightarrow> (None, print_table u2l column_names rows w))
      | None \<Rightarrow>
          if rowcount cur > 0 then (None, print_out (affected_line (rowcount cur)) w)
          else (None, print_out ''Statement executed.'' w))"

text \<open>
  The loop over the statements, lines 101 to 129. Line 102 calls \<open>query.strip()\<close> and
  drops what it returns, so \<open>query\<close> is still the statement as split when line 103 tests
  it: \<open>not query\<close> holds for the empty string only.
\<close>

fun run_queries :: "'db runtime \<Rightarrow> string list \<Rightarrow> 'db \<Rightarrow> world \<Rightarrow> exn option \<times> 'db \<times> world" where
  "run_queries rt [] db w = (None, db, w)"
| "run_queries rt (query # queries) db w =
     (if query = [] then run_queries rt queries db w
      else
        let w = print_out (bsl # ''begin{minted}[breaklines]{sql}'') w;
            w = print_out query w;
            w = print_out (bsl # ''end{minted}'') w
        in case find_parameters (sqlparse_parse rt) query of
             Inl e \<Rightarrow> (Some e, db, w)
           | Inr params \<Rightarrow>
               (let query' = (if suffix '';'' query then rstrip (butlast query) else query)
                in case fill_params (set_iter (set_rank rt) params) Map.empty w of
                     (Inl e, w) \<Rightarrow> (Some e, db, w)
                   | (Inr filled_params, w) \<Rightarrow>
                       (case execute rt db query' filled_params of
                          (Inl e, db) \<Rightarrow> (Some (DatabaseError e), db, w)
                        | (Inr cur, db) \<Rightarrow>
                            (case print_result (unicode_to_latex rt) cur w of
                               (Some e, w) \<Rightarrow> (Some e, db, w)
                             | (None, w) \<Rightarrow> run_queries rt queries db w))))"

definition strip_markers :: "string \<Rightarrow> string" where
  "strip_markers script =
     py_join ''\<newline>'' (filter (\<lambda>line. \<not> startswith line ''-- Task'') (split_nl script))"

definition process_script :: "'db runtime \<Rightarrow> string \<Rightarrow> 'db \<Rightarrow> world \<Rightarrow> exn option \<times> 'db \<times> world" where
  "process_script rt script db w =
     run_queries rt (sqlparse_split rt (strip_markers script)) db w"

section \<open>The program\<close>

text \<open>
  \<open>main\<close>, lines 132 to 182, on the content of the query file and the two other
  arguments. The loop over the tasks, lines 159 to 168, comes first.
\<close>

fun run_tasks :: "'db runtime \<Rightarrow> task list \<Rightarrow> 'db \<Rightarrow> world \<Rightarrow> exn option \<times> 'db \<times> world" where
  "run_tasks rt [] db w = (None, db, w)"
| "run_tasks rt ((i, script) # scripts) db w =
     (let w = print_err_noeol (''Running task '' @ show_int i @ ''...'' @ [CHR 0x09]) w
      in case open_cursor rt db of
           Some e \<Rightarrow> (Some (DatabaseError e), db, w)
         | None \<Rightarrow>
             (let w = print_out (bsl # ''section*{Task '' @ show_int i @ ''}'') w
              in case process_script rt (concat script) db w of
                   (Some e, db, w) \<Rightarrow> (Some e, db, w)
                 | (None, db, w) \<Rightarrow>
                     run_tasks rt scripts db (print_err ''done'' (print_out (bsl # ''pagebreak'') w))))"

definition error_line :: "dberror \<Rightarrow> string" where
  "error_line e = ''Database error occurred: '' @ show_int (code e) @ '' - '' @ message e"

definition close_connection :: "world \<Rightarrow> world" where
  "close_connection w = print_err ''Connection closed.'' (w\<lparr>conn_open := False\<rparr>)"

definition main :: "'db runtime \<Rightarrow> string \<Rightarrow> string \<Rightarrow> string \<Rightarrow> world \<Rightarrow> (exn + bool) \<times> world" where
  "main rt content author title w =
     (case parse_srcipts content of
        Inl e \<Rightarrow> (Inl e, w)
      | Inr scripts \<Rightarrow>
          (let w = print_err (''Scripts found: '' @ show_nat (length scripts)) w
           in case init_oracle_client rt of
                Some e \<Rightarrow> (Inl (DatabaseError e), w)
              | None \<Rightarrow>
                  (let w = print_err_noeol ''Connecting to the database... '' w
                   in case connect rt of
                        Inl e \<Rightarrow> (Inr False, print_err (error_line e) w)
                      | Inr db \<Rightarrow>
                          (let w = w\<lparr>conn_open := True\<rparr>;
                               w = print_err ''connected!'' w;
                               w = print_header author title w;
                               w = print_out (bsl # ''begin{document}'') w;
                               w = print_out (bsl # ''maketitle'') w
                           in case run_tasks rt scripts db w of
                                (None, db, w) \<Rightarrow>
                                  (Inr True, close_connection (print_out (bsl # ''end{document}'') w))
                              | (Some (DatabaseError e), db, w) \<Rightarrow>
                                  (Inr False, close_connection (print_err (error_line e) w))
                              | (Some e, db, w) \<Rightarrow> (Inl e, close_connection w)))))"

text \<open>
  Lines 185 to 187. The script ends with \<open>exit(-1)\<close> when \<open>main\<close> returned \<open>False\<close>, runs
  to its end otherwise (status 0), and an exception that nothing caught ends it with a
  traceback and status 1.
\<close>

datatype ending = Exit int | Traceback exn

fun exit_status :: "ending \<Rightarrow> int" where
  "exit_status (Exit n) = n"
| "exit_status (Traceback e) = 1"

definition program :: "'db runtime \<Rightarrow> string \<Rightarrow> string \<Rightarrow> string \<Rightarrow> world \<Rightarrow> ending \<times> world" where
  "program rt content author title w =
     (case main rt content author title w of
        (Inl e, w) \<Rightarrow> (Traceback e, w)
      | (Inr ok, w) \<Rightarrow> if ok = False then (Exit (- 1), w) else (Exit 0, w))"

section \<open>Notions used in the statements\<close>

text \<open>A marker line is a line that starts with the prefix the splitter tests for.\<close>

abbreviation marker :: "string \<Rightarrow> bool" where
  "marker l \<equiv> startswith l ''-- Task''"

text \<open>
  A block is well formed when it has a line and none of its lines after the first is a
  marker line. A task list is numbered by its markers when every block after the first
  starts with a marker line whose number is the number of the task before it plus one.
\<close>

definition block_ok :: "string list \<Rightarrow> bool" where
  "block_ok b \<longleftrightarrow> b \<noteq> [] \<and> (\<forall>l\<in>set (tl b). \<not> marker l)"

definition numbered :: "task list \<Rightarrow> bool" where
  "numbered ts \<longleftrightarrow>
     (\<forall>i. Suc i < length ts \<longrightarrow>
        marker (hd (snd (ts ! Suc i))) \<and>
        task_num (hd (snd (ts ! Suc i))) = Some (fst (ts ! i) + 1))"

text \<open>The invariant of the splitter's loop, on the closed tasks and the open block.\<close>

definition split_inv :: "task list \<Rightarrow> string list \<Rightarrow> bool" where
  "split_inv scripts script \<longleftrightarrow>
     (\<forall>b\<in>set (map snd scripts). block_ok b) \<and>
     (script = [] \<or> block_ok script) \<and>
     numbered scripts \<and>
     (scripts \<noteq> [] \<longrightarrow>
        script \<noteq> [] \<and> marker (hd script) \<and>
        task_num (hd script) = Some (fst (last scripts) + 1))"

text \<open>
  A stand-in for the libraries and the database, to run the model on concrete inputs:
  no transliteration; the whole text, stripped, as one statement; no statement parsed
  from a blank text and one token with the whole text otherwise; sets gone through in
  the order of insertion; and a database that accepts every statement, reports neither
  columns nor rows for it, and keeps the list of the statements it was given.
\<close>

definition stub_runtime :: "string list runtime" where
  "stub_runtime =
     \<lparr>unicode_to_latex = (\<lambda>s. s),
      sqlparse_split = (\<lambda>s. [py_strip s]),
      sqlparse_parse = (\<lambda>q. if list_all str_space q then [] else [[([''Text''], q)]]),
      set_rank = (\<lambda>s x. 0),
      init_oracle_client = None,
      connect = Inr [],
      open_cursor = (\<lambda>db. None),
      execute = (\<lambda>db q ps. (Inr \<lparr>description = None, fetchall = Inr [], rowcount = 0\<rparr>, db @ [q]))\<rparr>"

text \<open>The text that a sequence of \<open>print\<close> calls writes.\<close>

definition unlines :: "string list \<Rightarrow> string" where
  "unlines ls = concat (map (\<lambda>l. l @ ''\<newline>'') ls)"

definition world0 :: world where
  "world0 = \<lparr>out = [], err = [], inp = [], conn_open = False\<rparr>"

text \<open>
  The world when the program is about to connect, and the world when it has connected
  and written the head of the document (lines 141 to 157).
\<close>

definition before_connect :: "task list \<Rightarrow> world \<Rightarrow> world" where
  "before_connect scripts w =
     print_err_noeol ''Connecting to the database... ''
       (print_err (''Scripts found: '' @ show_nat (length scripts)) w)"

definition after_connect :: "string \<Rightarrow> string \<Rightarrow> task list \<Rightarrow> world \<Rightarrow> world" where
  "after_connect author title scripts w =
     print_out (bsl # ''maketitle'')
       (print_out (bsl # ''begin{document}'')
          (print_header author title
             (print_err ''connected!'' ((before_connect scripts w)\<lparr>conn_open := True\<rparr>))))"

text \<open>
  Concrete inputs for running the model. A statement with two placeholders, one of them
  twice, and a string literal that holds \<open>:a and :b\<close>, with its tokens; a runtime that
  parses it so, goes through a set with \<open>n\<close> first, and answers every statement with one
  row of the values bound to \<open>a\<close> and \<open>n\<close>. A database that answers with a table of two
  rows, one that answers with the names of its columns and no row, and one that reports
  a given number of affected rows. Two database errors, a database that refuses every
  statement, and the script of two tasks.
\<close>

definition sample_query :: string where
  "sample_query = ''SELECT :a, '' @ [CHR 0x27] @ '':a and :b'' @ [CHR 0x27] @ '', :n, :a FROM DUAL;''"

definition sample_tokens :: "token list" where
  "sample_tokens =
     [([''Keyword'', ''DML''], ''SELECT''),
      ([''Text'', ''Whitespace''], '' ''),
      (Placeholder, '':a''),
      ([''Punctuation''], '',''),
      ([''Text'', ''Whitespace''], '' ''),
      ([''Literal'', ''String'', ''Single''], [CHR 0x27] @ '':a and :b'' @ [CHR 0x27]),
      ([''Punctuation''], '',''),
      ([''Text'', ''Whitespace''], '' ''),
      (Placeholder, '':n''),
      ([''Punctuation''], '',''),
      ([''Text'', ''Whitespace''], '' ''),
      (Placeholder, '':a''),
      ([''Text'', ''Whitespace''], '' ''),
      ([''Keyword''], ''FROM''),
      ([''Text'', ''Whitespace''], '' ''),
      ([''Name''], ''DUAL''),
      ([''Punctuation''], '';'')]"

definition bound :: "(string \<rightharpoonup> string) \<Rightarrow> string \<Rightarrow> string" where
  "bound ps k = (case ps k of None \<Rightarrow> ''NULL'' | Some v \<Rightarrow> v)"

definition echo_runtime :: "string list runtime" where
  "echo_runtime =
     stub_runtime
       \<lparr>sqlparse_parse := (\<lambda>q. if q = sample_query then [sample_tokens]
                                 else sqlparse_parse stub_runtime q),
        set_rank := (\<lambda>s x. if x = ''n'' then 0 else 1),
        execute := (\<lambda>db q ps.
          (Inr \<lparr>description = Some [''A'', ''N''], fetchall = Inr [[bound ps ''a'', bound ps ''n'']],
                rowcount = 1\<rparr>, db @ [q]))\<rparr>"

definition table_runtime :: "string list runtime" where
  "table_runtime =
     stub_runtime
       \<lparr>execute := (\<lambda>db q ps.
          (Inr \<lparr>description = Some [''ID'', ''NAME''],
                fetchall = Inr [[''1'', ''Ann  Lee''], [''2'', ''a|b'']], rowcount = 2\<rparr>,
           db @ [q]))\<rparr>"

definition empty_table_runtime :: "string list runtime" where
  "empty_table_runtime =
     stub_runtime
       \<lparr>execute := (\<lambda>db q ps.
          (Inr \<lparr>description = Some [''ID'', ''NAME''], fetchall = Inr [], rowcount = 0\<rparr>,
           db @ [q]))\<rparr>"

definition count_runtime :: "int \<Rightarrow> string list runtime" where
  "count_runtime n =
     stub_runtime
       \<lparr>execute := (\<lambda>db q ps.
          (Inr \<lparr>description = None, fetchall = Inr [], rowcount = n\<rparr>, db @ [q]))\<rparr>"

definition no_table :: dberror where
  "no_table = \<lparr>code = 942, message = ''ORA-00942: table or view does not exist''\<rparr>"

definition two_tasks :: string where
  "two_tasks = ''-- Task 1\<newline>SELECT 1 FROM DUAL;\<newline>-- Task 2\<newline>SELECT 2 FROM DUAL;\<newline>''"

definition refused :: dberror where
  "refused = \<lparr>code = 12541, message = ''ORA-12541: TNS:no listener''\<rparr>"

definition broken_runtime :: "string list runtime" where
  "broken_runtime = stub_runtime\<lparr>execute := (\<lambda>db q ps. (Inl no_table, db))\<rparr>"

section \<open>Evaluation\<close>

lemmas int_eval = task_num_def py_int_def int_space_def is_digit_def int_body_ok_def
  int_max_str_digits_def digit_val_def

lemmas parse_eval = parse_srcipts_def parse_lines_def int_eval

lemmas run_eval = process_script_def strip_markers_def stub_runtime_def broken_runtime_def
  world0_def find_parameters_def set_add_def set_iter_def print_result_def print_out_def
  print_err_def print_err_noeol_def suffix_to_prefix rstrip_def py_strip_def str_space_def
  show_int_def digit_char_def after_connect_def before_connect_def print_header_def
  close_connection_def error_line_def

lemmas fixture_eval = run_eval table_runtime_def empty_table_runtime_def count_runtime_def
  unlines_def sanitize_latex_def py_replace_def textbar_def affected_line_def

section \<open>The splitter: loop lemmas\<close>

lemma concat_readlines: "concat (readlines s) = s"
  by (induction s) (auto split: list.splits)

lemma split_loop_returns:
  "(\<forall>l\<in>set lines. marker l \<longrightarrow> task_num l \<noteq> None) \<Longrightarrow>
   \<exists>sc s. split_loop lines scripts script = Inr (sc, s)"
  by (induction lines arbitrary: scripts script) auto

lemma split_loop_concat:
  "split_loop lines scripts script = Inr (sc, s) \<Longrightarrow>
   concat (map snd sc) @ s = concat (map snd scripts) @ script @ lines"
  by (induction lines arbitrary: scripts script) (auto split: if_splits option.splits)

lemma split_loop_count:
  "split_loop lines scripts script = Inr (sc, s) \<Longrightarrow> script \<noteq> [] \<Longrightarrow>
   length sc = length scripts + length (filter marker lines) \<and> s \<noteq> []"
  by (induction lines arbitrary: scripts script) (auto split: if_splits option.splits)

lemma split_loop_count0:
  "split_loop lines [] [] = Inr (sc, s) \<Longrightarrow>
   length sc = length (filter marker (tl lines)) \<and> (lines \<noteq> [] \<longrightarrow> s \<noteq> [])"
  by (cases lines) (auto split: if_splits option.splits dest: split_loop_count)

lemma split_loop_ValueError:
  "(\<forall>l\<in>set pre. marker l \<longrightarrow> task_num l \<noteq> None) \<Longrightarrow> marker line \<Longrightarrow>
   task_num line = None \<Longrightarrow> split_loop (pre @ line # rest) scripts script = Inl ValueError"
  by (induction pre arbitrary: scripts script) auto

lemma split_loop_nomarker:
  "(\<forall>l\<in>set lines. \<not> marker l) \<Longrightarrow>
   split_loop lines scripts script = Inr (scripts, script @ lines)"
  by (induction lines arbitrary: script) auto

lemma block_ok_snoc:
  "script = [] \<or> block_ok script \<Longrightarrow> \<not> marker line \<Longrightarrow> block_ok (script @ [line])"
  by (cases script) (auto simp: block_ok_def)

lemma block_ok_single: "block_ok [line]"
  by (simp add: block_ok_def)

lemma numbered_snoc:
  assumes "numbered scripts"
    and "scripts \<noteq> [] \<longrightarrow>
           marker (hd script) \<and> task_num (hd script) = Some (fst (last scripts) + 1)"
  shows "numbered (scripts @ [(n, script)])"
  unfolding numbered_def
proof (intro allI impI)
  fix i assume i: "Suc i < length (scripts @ [(n, script)])"
  let ?ts = "scripts @ [(n, script)]"
  show "marker (hd (snd (?ts ! Suc i))) \<and>
        task_num (hd (snd (?ts ! Suc i))) = Some (fst (?ts ! i) + 1)"
  proof (cases "Suc i < length scripts")
    case True
    then show ?thesis using assms(1) by (simp add: numbered_def nth_append)
  next
    case False
    with i have eq: "Suc i = length scripts" by simp
    then have ne: "scripts \<noteq> []" by auto
    have "scripts ! i = last scripts" using eq ne by (metis diff_Suc_1 last_conv_nth)
    then show ?thesis using assms(2) ne eq by (simp add: nth_append)
  qed
qed

lemma split_inv_init: "split_inv [] []"
  by (simp add: split_inv_def numbered_def)

lemma split_inv_close:
  assumes "split_inv scripts script" "script \<noteq> []" "marker line" "task_num line = Some num"
  shows "split_inv (scripts @ [(num - 1, script)]) [line]"
proof -
  have "numbered (scripts @ [(num - 1, script)])"
    using assms(1) by (intro numbered_snoc) (auto simp: split_inv_def)
  then show ?thesis
    using assms by (auto simp: split_inv_def block_ok_single)
qed

lemma split_inv_first: "split_inv scripts [] \<Longrightarrow> split_inv scripts [line]"
  by (auto simp: split_inv_def block_ok_single)

lemma split_inv_keep:
  assumes "split_inv scripts script" "\<not> marker line"
  shows "split_inv scripts (script @ [line])"
proof -
  have "block_ok (script @ [line])"
    using assms by (intro block_ok_snoc) (auto simp: split_inv_def)
  then show ?thesis using assms by (auto simp: split_inv_def)
qed

lemma split_loop_inv:
  "split_loop lines scripts script = Inr (sc, s) \<Longrightarrow> split_inv scripts script \<Longrightarrow> split_inv sc s"
proof (induction lines arbitrary: scripts script)
  case Nil
  then show ?case by simp
next
  case (Cons line rest)
  show ?case
  proof (cases "marker line")
    case False
    with Cons.prems have "split_loop rest scripts (script @ [line]) = Inr (sc, s)" by simp
    moreover have "split_inv scripts (script @ [line])"
      using Cons.prems(2) False by (rule split_inv_keep)
    ultimately show ?thesis by (rule Cons.IH)
  next
    case True
    with Cons.prems(1) obtain num where num: "task_num line = Some num"
      by (auto split: option.splits)
    show ?thesis
    proof (cases "script = []")
      case True
      with Cons.prems \<open>marker line\<close> num have "split_loop rest scripts [line] = Inr (sc, s)"
        by simp
      moreover have "split_inv scripts [line]"
        using Cons.prems(2) True by (auto intro: split_inv_first)
      ultimately show ?thesis by (rule Cons.IH)
    next
      case False
      with Cons.prems \<open>marker line\<close> num
      have "split_loop rest (scripts @ [(num - 1, script)]) [line] = Inr (sc, s)" by simp
      moreover have "split_inv (scripts @ [(num - 1, script)]) [line]"
        using Cons.prems(2) False \<open>marker line\<close> num by (rule split_inv_close)
      ultimately show ?thesis by (rule Cons.IH)
    qed
  qed
qed

lemma parse_lines_Inr:
  assumes "parse_lines lines = Inr tasks"
  obtains sc s where "split_loop lines [] [] = Inr (sc, s)" "sc \<noteq> []"
    "tasks = sc @ [(fst (last sc) + 1, s)]"
  using assms by (auto simp: parse_lines_def split: sum.splits if_splits)

lemma parse_lines_returns:
  assumes "\<forall>l\<in>set lines. marker l \<longrightarrow> task_num l \<noteq> None" and "\<exists>l\<in>set (tl lines). marker l"
  shows "\<exists>tasks. parse_lines lines = Inr tasks"
proof -
  obtain sc s where r: "split_loop lines [] [] = Inr (sc, s)"
    using split_loop_returns [OF assms(1)] by blast
  then have "length sc = length (filter marker (tl lines))" by (simp add: split_loop_count0)
  moreover have "filter marker (tl lines) \<noteq> []" using assms(2) by (simp add: filter_empty_conv)
  ultimately have "sc \<noteq> []" by auto
  with r show ?thesis by (simp add: parse_lines_def)
qed

lemma parse_lines_count:
  assumes "parse_lines lines = Inr tasks"
  shows "length tasks = (if marker (hd lines) then length (filter marker lines)
                         else length (filter marker lines) + 1)"
proof -
  from assms obtain sc s where r: "split_loop lines [] [] = Inr (sc, s)" "sc \<noteq> []"
    "tasks = sc @ [(fst (last sc) + 1, s)]" by (rule parse_lines_Inr)
  have len: "length sc = length (filter marker (tl lines))"
    using r(1) by (simp add: split_loop_count0)
  with r(2) have "lines \<noteq> []" by auto
  then obtain l ls where "lines = l # ls" by (cases lines) auto
  with len r(3) show ?thesis by simp
qed

lemma parse_lines_concat:
  assumes "parse_lines lines = Inr tasks"
  shows "concat (map snd tasks) = lines"
proof -
  from assms obtain sc s where r: "split_loop lines [] [] = Inr (sc, s)" "sc \<noteq> []"
    "tasks = sc @ [(fst (last sc) + 1, s)]" by (rule parse_lines_Inr)
  from split_loop_concat [OF r(1)] r(3) show ?thesis by simp
qed

lemma parse_lines_blocks:
  assumes "parse_lines lines = Inr tasks"
  shows "(\<forall>b\<in>set (map snd tasks). block_ok b) \<and> numbered tasks \<and> 2 \<le> length tasks \<and>
         fst (last tasks) = fst (tasks ! (length tasks - 2)) + 1"
proof -
  from assms obtain sc s where r: "split_loop lines [] [] = Inr (sc, s)" "sc \<noteq> []"
    "tasks = sc @ [(fst (last sc) + 1, s)]" by (rule parse_lines_Inr)
  have inv: "split_inv sc s" using r(1) split_inv_init by (rule split_loop_inv)
  have 1: "\<forall>b\<in>set (map snd tasks). block_ok b"
    using inv r(2,3) by (auto simp: split_inv_def)
  have 2: "numbered tasks"
    unfolding r(3) using inv r(2) by (intro numbered_snoc) (auto simp: split_inv_def)
  have 3: "2 \<le> length tasks" using r(2,3) by (cases sc) auto
  have "tasks ! (length tasks - 2) = last sc"
    using r(2,3) by (simp add: nth_append last_conv_nth)
  then have 4: "fst (last tasks) = fst (tasks ! (length tasks - 2)) + 1" using r(3) by simp
  from 1 2 3 4 show ?thesis by blast
qed

lemma parse_lines_nomarker:
  "(\<forall>l\<in>set lines. \<not> marker l) \<Longrightarrow> parse_lines lines = Inl IndexError"
  by (simp add: parse_lines_def split_loop_nomarker)

section \<open>The splitter: numbering, task count, failures\<close>

text \<open>
  Claim C1, as amended. When a marker line is met while the open block is not empty, the
  loop closes that block under the marker's number minus one and opens a new block with
  the marker line. When the loop ends with at least one closed task, the open block is
  appended under the number of the last closed task plus one. So whenever the splitter
  returns, it returns at least two tasks, every block after the first starts with the
  marker line whose number is the number of the task before it plus one, and the last
  task's number is the one before it plus one. The file
  \<open>-- Task 1 / SELECT 1 FROM DUAL; / -- Task 2 / SELECT 2 FROM DUAL;\<close> gives exactly two
  tasks, numbered 1 and 2.
\<close>

theorem splitter_numbering:
  "(marker line \<and> task_num line = Some num \<and> script \<noteq> [] \<longrightarrow>
      split_loop (line # rest) scripts script =
      split_loop rest (scripts @ [(num - 1, script)]) [line]) \<and>
   (split_loop lines [] [] = Inr (closed, final) \<and> closed \<noteq> [] \<longrightarrow>
      parse_lines lines = Inr (closed @ [(fst (last closed) + 1, final)])) \<and>
   (parse_lines lines = Inr tasks \<longrightarrow>
      2 \<le> length tasks \<and> numbered tasks \<and>
      fst (last tasks) = fst (tasks ! (length tasks - 2)) + 1) \<and>
   parse_srcipts ''-- Task 1\<newline>SELECT 1 FROM DUAL;\<newline>-- Task 2\<newline>SELECT 2 FROM DUAL;\<newline>'' =
     Inr [(1, [''-- Task 1\<newline>'', ''SELECT 1 FROM DUAL;\<newline>'']),
          (2, [''-- Task 2\<newline>'', ''SELECT 2 FROM DUAL;\<newline>''])]"
proof (intro conjI impI)
  assume "marker line \<and> task_num line = Some num \<and> script \<noteq> []"
  then show "split_loop (line # rest) scripts script =
      split_loop rest (scripts @ [(num - 1, script)]) [line]" by simp
next
  assume "split_loop lines [] [] = Inr (closed, final) \<and> closed \<noteq> []"
  then show "parse_lines lines = Inr (closed @ [(fst (last closed) + 1, final)])"
    by (simp add: parse_lines_def)
next
  assume r: "parse_lines lines = Inr tasks"
  from parse_lines_blocks [OF r] show "2 \<le> length tasks" by blast
  from parse_lines_blocks [OF r] show "numbered tasks" by blast
  from parse_lines_blocks [OF r] show "fst (last tasks) = fst (tasks ! (length tasks - 2)) + 1"
    by blast
next
  show "parse_srcipts ''-- Task 1\<newline>SELECT 1 FROM DUAL;\<newline>-- Task 2\<newline>SELECT 2 FROM DUAL;\<newline>'' =
     Inr [(1, [''-- Task 1\<newline>'', ''SELECT 1 FROM DUAL;\<newline>'']),
          (2, [''-- Task 2\<newline>'', ''SELECT 2 FROM DUAL;\<newline>''])]"
    by (simp add: parse_eval)
qed

theorem splitter_numbering_witness:
  "split_loop [''-- Task 2\<newline>'', ''SELECT 2 FROM DUAL;\<newline>''] [] [''-- Task 1\<newline>'', ''SELECT 1 FROM DUAL;\<newline>''] =
     split_loop [''SELECT 2 FROM DUAL;\<newline>''] [(1, [''-- Task 1\<newline>'', ''SELECT 1 FROM DUAL;\<newline>''])] [''-- Task 2\<newline>''] \<and>
   parse_lines [''-- Task 1\<newline>'', ''SELECT 1 FROM DUAL;\<newline>'', ''-- Task 2\<newline>'', ''SELECT 2 FROM DUAL;\<newline>''] =
     Inr [(1, [''-- Task 1\<newline>'', ''SELECT 1 FROM DUAL;\<newline>'']),
          (2, [''-- Task 2\<newline>'', ''SELECT 2 FROM DUAL;\<newline>''])] \<and>
   numbered [(1, [''-- Task 1\<newline>'', ''SELECT 1 FROM DUAL;\<newline>'']),
          (2, [''-- Task 2\<newline>'', ''SELECT 2 FROM DUAL;\<newline>''])]"
  using splitter_numbering [where line = "''-- Task 2\<newline>''" and num = 2
      and script = "[''-- Task 1\<newline>'', ''SELECT 1 FROM DUAL;\<newline>'']"
      and rest = "[''SELECT 2 FROM DUAL;\<newline>'']" and scripts = "[]"
      and lines = "[''-- Task 1\<newline>'', ''SELECT 1 FROM DUAL;\<newline>'', ''-- Task 2\<newline>'', ''SELECT 2 FROM DUAL;\<newline>'']"
      and closed = "[(1, [''-- Task 1\<newline>'', ''SELECT 1 FROM DUAL;\<newline>''])]"
      and final = "[''-- Task 2\<newline>'', ''SELECT 2 FROM DUAL;\<newline>'']"
      and tasks = "[(1, [''-- Task 1\<newline>'', ''SELECT 1 FROM DUAL;\<newline>'']),
          (2, [''-- Task 2\<newline>'', ''SELECT 2 FROM DUAL;\<newline>''])]"]
  by (simp add: parse_lines_def int_eval)

text \<open>
  The claim as written says the final block is always appended. On a file without any
  closed block \<open>scripts[-1]\<close> raises instead, and nothing is appended.
\<close>

theorem splitter_numbering_counterexample:
  "parse_srcipts ''SELECT 1 FROM DUAL;\<newline>'' = Inl IndexError"
  by (simp add: parse_eval)

text \<open>
  Claim C2, as amended. The splitter returns whenever every marker line carries a number
  that \<open>int\<close> accepts and some marker line stands after the first line. Whenever it
  returns on a file with N marker lines, it returns N tasks if the first line is a marker
  line and N + 1 tasks otherwise; the blocks in order, put together, are the lines of the
  file, and so the file itself; every block has a line and none of its lines after the
  first is a marker line.
\<close>

theorem splitter_task_count:
  "((\<forall>l\<in>set (readlines content). marker l \<longrightarrow> task_num l \<noteq> None) \<and>
    (\<exists>l\<in>set (tl (readlines content)). marker l) \<longrightarrow>
      (\<exists>ts. parse_srcipts content = Inr ts)) \<and>
   (parse_srcipts content = Inr tasks \<longrightarrow>
      length tasks =
        (if marker (hd (readlines content)) then length (filter marker (readlines content))
         else length (filter marker (readlines content)) + 1) \<and>
      concat (map snd tasks) = readlines content \<and>
      concat (concat (map snd tasks)) = content \<and>
      (\<forall>b\<in>set (map snd tasks). block_ok b))"
proof (intro conjI impI)
  assume "(\<forall>l\<in>set (readlines content). marker l \<longrightarrow> task_num l \<noteq> None) \<and>
    (\<exists>l\<in>set (tl (readlines content)). marker l)"
  then show "\<exists>ts. parse_srcipts content = Inr ts"
    unfolding parse_srcipts_def by (intro parse_lines_returns) blast+
next
  assume "parse_srcipts content = Inr tasks"
  then have r: "parse_lines (readlines content) = Inr tasks" by (simp add: parse_srcipts_def)
  show "length tasks =
        (if marker (hd (readlines content)) then length (filter marker (readlines content))
         else length (filter marker (readlines content)) + 1)"
    using r by (rule parse_lines_count)
  show c: "concat (map snd tasks) = readlines content"
    using r by (rule parse_lines_concat)
  show "concat (concat (map snd tasks)) = content"
    by (simp add: c concat_readlines)
  show "\<forall>b\<in>set (map snd tasks). block_ok b"
    using parse_lines_blocks [OF r] by blast
qed

theorem splitter_task_count_witness:
  "(\<exists>ts. parse_srcipts ''-- Task 3\<newline>a\<newline>b\<newline>-- Task 4\<newline>c\<newline>'' = Inr ts) \<and>
   parse_srcipts ''-- Task 3\<newline>a\<newline>b\<newline>-- Task 4\<newline>c\<newline>'' =
     Inr [(3, [''-- Task 3\<newline>'', ''a\<newline>'', ''b\<newline>'']), (4, [''-- Task 4\<newline>'', ''c\<newline>''])] \<and>
   length [(3::int, [''-- Task 3\<newline>'', ''a\<newline>'', ''b\<newline>'']), (4, [''-- Task 4\<newline>'', ''c\<newline>''])] =
     length (filter marker (readlines ''-- Task 3\<newline>a\<newline>b\<newline>-- Task 4\<newline>c\<newline>'')) \<and>
   block_ok [''-- Task 3\<newline>'', ''a\<newline>'', ''b\<newline>''] \<and> block_ok [''-- Task 4\<newline>'', ''c\<newline>'']"
  using splitter_task_count [where content = "''-- Task 3\<newline>a\<newline>b\<newline>-- Task 4\<newline>c\<newline>''"
      and tasks = "[(3, [''-- Task 3\<newline>'', ''a\<newline>'', ''b\<newline>'']), (4, [''-- Task 4\<newline>'', ''c\<newline>''])]"]
  by (simp add: parse_eval)

text \<open>
  The claim as written promises N tasks for N marker lines. Text before the first marker
  line is a task of its own: one marker line, two tasks.
\<close>

theorem splitter_task_count_counterexample:
  "length (filter marker (readlines ''REM setup\<newline>-- Task 5\<newline>SELECT 5 FROM DUAL;\<newline>'')) = 1 \<and>
   parse_srcipts ''REM setup\<newline>-- Task 5\<newline>SELECT 5 FROM DUAL;\<newline>'' =
     Inr [(4, [''REM setup\<newline>'']), (5, [''-- Task 5\<newline>'', ''SELECT 5 FROM DUAL;\<newline>''])]"
  by (simp add: parse_eval)

lemma program_parse_error:
  "parse_srcipts content = Inl e \<Longrightarrow> program rt content author title w = (Traceback e, w)"
  by (simp add: program_def main_def)

text \<open>
  Claim C3. On a file without any marker line the splitter raises IndexError at line 46,
  where it reads the last closed task of an empty list; it returns no task list. Nothing
  catches the exception: the program ends with the traceback, before it has written
  anything.
\<close>

theorem no_marker_fails:
  "\<forall>l\<in>set (readlines content). \<not> marker l \<Longrightarrow>
   parse_srcipts content = Inl IndexError \<and>
   program rt content author title w = (Traceback IndexError, w)"
proof -
  assume "\<forall>l\<in>set (readlines content). \<not> marker l"
  then have "parse_srcipts content = Inl IndexError"
    unfolding parse_srcipts_def by (rule parse_lines_nomarker)
  then show ?thesis by (simp add: program_parse_error)
qed

theorem no_marker_fails_witness:
  "parse_srcipts ''SELECT 1 FROM DUAL;\<newline>SELECT 2 FROM DUAL;\<newline>'' = Inl IndexError \<and>
   program stub_runtime ''SELECT 1 FROM DUAL;\<newline>SELECT 2 FROM DUAL;\<newline>'' ''A'' ''T'' world0
     = (Traceback IndexError, world0)"
proof -
  have h: "\<forall>l\<in>set (readlines ''SELECT 1 FROM DUAL;\<newline>SELECT 2 FROM DUAL;\<newline>''). \<not> marker l"
    by simp
  show ?thesis
    using no_marker_fails [OF h, of stub_runtime "''A''" "''T''" world0] by blast
qed

text \<open>
  Claim C10. The number of a marker line is read from offset 8 on, so the character at
  offset 7 has no part in it, whatever it is. \<open>-- Task42\<close> is read as 2. A marker line
  with nothing that \<open>int\<close> accepts from offset 8 on, such as \<open>-- Task1\<close> and a line
  feed, raises ValueError, wherever it stands after marker lines that were read.
\<close>

theorem marker_offset:
  "task_num (''-- Task'' @ c # tail) = py_int tail \<and>
   task_num (''-- Task'' @ c # tail) = task_num (''-- Task'' @ d # tail) \<and>
   task_num ''-- Task42\<newline>'' = Some 2 \<and>
   task_num ''-- Task1\<newline>'' = None \<and>
   parse_srcipts ''-- Task1\<newline>'' = Inl ValueError \<and>
   ((\<forall>l\<in>set pre. marker l \<longrightarrow> task_num l \<noteq> None) \<and> marker line \<and> task_num line = None \<longrightarrow>
      parse_lines (pre @ line # rest) = Inl ValueError)"
proof (intro conjI impI)
  show "task_num (''-- Task'' @ c # tail) = py_int tail" by (simp add: task_num_def)
  show "task_num (''-- Task'' @ c # tail) = task_num (''-- Task'' @ d # tail)"
    by (simp add: task_num_def)
  show "task_num ''-- Task42\<newline>'' = Some 2" by (simp add: int_eval)
  show "task_num ''-- Task1\<newline>'' = None" by (simp add: int_eval)
  show "parse_srcipts ''-- Task1\<newline>'' = Inl ValueError" by (simp add: parse_eval)
next
  assume "(\<forall>l\<in>set pre. marker l \<longrightarrow> task_num l \<noteq> None) \<and> marker line \<and> task_num line = None"
  then have "split_loop (pre @ line # rest) [] [] = Inl ValueError"
    by (intro split_loop_ValueError) blast+
  then show "parse_lines (pre @ line # rest) = Inl ValueError" by (simp add: parse_lines_def)
qed

theorem marker_offset_witness:
  "parse_lines ([''-- Task 7\<newline>'', ''SELECT 7 FROM DUAL;\<newline>''] @ ''-- Task8\<newline>'' # [''SELECT 8 FROM DUAL;\<newline>''])
     = Inl ValueError"
  using marker_offset [where pre = "[''-- Task 7\<newline>'', ''SELECT 7 FROM DUAL;\<newline>'']"
      and line = "''-- Task8\<newline>''" and rest = "[''SELECT 8 FROM DUAL;\<newline>'']"]
  by (simp add: int_eval)

section \<open>The sanitizer\<close>

lemma length_re_sub_spaces: "length (re_sub_spaces s) = length s"
proof (induction s rule: re_sub_spaces.induct)
  case 1
  then show ?case by simp
next
  case (2 c cs)
  let ?run = "takeWhile (\<lambda>x. x = CHR '' '') (c # cs)"
  let ?rest = "dropWhile (\<lambda>x. x = CHR '' '') (c # cs)"
  show ?case
  proof (cases "2 \<le> length ?run")
    case True
    then have "length (re_sub_spaces ?rest) = length ?rest" using "2.IH"(1) by simp
    moreover have "length ?run + length ?rest = length (c # cs)"
      by (metis length_append takeWhile_dropWhile_id)
    moreover have "re_sub_spaces (c # cs) = replicate (length ?run) (CHR ''~'') @ re_sub_spaces ?rest"
      using True by (simp add: Let_def)
    ultimately show ?thesis by simp
  next
    case False
    then have "length (re_sub_spaces cs) = length cs" using "2.IH"(2) by simp
    moreover have "re_sub_spaces (c # cs) = c # re_sub_spaces cs"
      using False by (simp add: Let_def)
    ultimately show ?thesis by simp
  qed
qed

lemma re_sub_spaces_append_left:
  "pre = [] \<or> last pre \<noteq> CHR '' '' \<Longrightarrow> re_sub_spaces (pre @ r) = re_sub_spaces pre @ re_sub_spaces r"
proof (induction pre rule: re_sub_spaces.induct)
  case 1
  then show ?case by simp
next
  case (2 c cs)
  let ?P = "\<lambda>x. x = CHR '' ''"
  from "2.prems" have lst: "last (c # cs) \<noteq> CHR '' ''" by simp
  then have ex: "\<exists>x\<in>set (c # cs). \<not> ?P x" by (metis last_in_set list.distinct(1))
  then obtain x where x: "x \<in> set (c # cs)" "\<not> ?P x" by blast
  have tw: "takeWhile ?P ((c # cs) @ r) = takeWhile ?P (c # cs)"
    using x by (rule takeWhile_append1)
  have dw: "dropWhile ?P ((c # cs) @ r) = dropWhile ?P (c # cs) @ r"
    using x by (rule dropWhile_append1)
  show ?case
  proof (cases "2 \<le> length (takeWhile ?P (c # cs))")
    case True
    have ne: "dropWhile ?P (c # cs) \<noteq> []" using ex by (simp add: dropWhile_eq_Nil_conv del: dropWhile.simps)
    have "last (dropWhile ?P (c # cs)) = last (c # cs)"
      by (metis ne last_appendR takeWhile_dropWhile_id)
    then have "dropWhile ?P (c # cs) = [] \<or> last (dropWhile ?P (c # cs)) \<noteq> CHR '' ''" using lst by simp
    then have IH: "re_sub_spaces (dropWhile ?P (c # cs) @ r) =
         re_sub_spaces (dropWhile ?P (c # cs)) @ re_sub_spaces r"
      using "2.IH"(1) True by simp
    have "re_sub_spaces ((c # cs) @ r) =
        replicate (length (takeWhile ?P (c # cs))) (CHR ''~'') @ re_sub_spaces (dropWhile ?P (c # cs) @ r)"
      using True tw dw by (simp add: Let_def del: takeWhile.simps dropWhile.simps takeWhile_append dropWhile_append)
    moreover have "re_sub_spaces (c # cs) =
        replicate (length (takeWhile ?P (c # cs))) (CHR ''~'') @ re_sub_spaces (dropWhile ?P (c # cs))"
      using True by (simp add: Let_def del: takeWhile.simps dropWhile.simps)
    ultimately show ?thesis using IH by simp
  next
    case False
    have "cs = [] \<or> last cs \<noteq> CHR '' ''" using lst by (cases cs) auto
    then have IH: "re_sub_spaces (cs @ r) = re_sub_spaces cs @ re_sub_spaces r"
      using "2.IH"(2) False by simp
    have "re_sub_spaces ((c # cs) @ r) = c # re_sub_spaces (cs @ r)"
      using False tw by (simp add: Let_def del: takeWhile.simps dropWhile.simps takeWhile_append dropWhile_append)
    moreover have "re_sub_spaces (c # cs) = c # re_sub_spaces cs"
      using False by (simp add: Let_def del: takeWhile.simps dropWhile.simps)
    ultimately show ?thesis using IH by simp
  qed
qed

lemma takeWhile_replicate_sp:
  "takeWhile (\<lambda>x. x = c) (replicate n c @ ys) = replicate n c @ takeWhile (\<lambda>x. x = c) ys"
  by (induction n) auto

lemma dropWhile_replicate_sp:
  "dropWhile (\<lambda>x. x = c) (replicate n c @ ys) = dropWhile (\<lambda>x. x = c) ys"
  by (induction n) auto

lemma re_sub_spaces_run:
  assumes "2 \<le> n" "post = [] \<or> hd post \<noteq> CHR '' ''"
  shows "re_sub_spaces (replicate n CHR '' '' @ post) = replicate n (CHR ''~'') @ re_sub_spaces post"
proof -
  let ?P = "\<lambda>x. x = CHR '' ''"
  obtain m where n: "n = Suc m" using assms(1) by (cases n) auto
  have tw: "takeWhile ?P (replicate n CHR '' '' @ post) = replicate n CHR '' ''"
    using assms(2) by (cases post) (auto simp: takeWhile_replicate_sp)
  have dw: "dropWhile ?P (replicate n CHR '' '' @ post) = post"
    using assms(2) by (cases post) (auto simp: dropWhile_replicate_sp)
  have "replicate n CHR '' '' @ post = CHR '' '' # (replicate m CHR '' '' @ post)" by (simp add: n)
  then have "re_sub_spaces (replicate n CHR '' '' @ post) =
     (let run = takeWhile ?P (replicate n CHR '' '' @ post)
      in if 2 \<le> length run
         then replicate (length run) (CHR ''~'') @ re_sub_spaces (dropWhile ?P (replicate n CHR '' '' @ post))
         else CHR '' '' # re_sub_spaces (replicate m CHR '' '' @ post))"
    by (metis re_sub_spaces.simps(2))
  then show ?thesis using tw dw assms(1) by (simp add: Let_def)
qed

lemma replace_from_char:
  "replace_from [c] new xs = concat (map (\<lambda>x. if x = c then new else [x]) xs)"
  by (induction xs) auto

lemma py_replace_char_append:
  "py_replace (xs @ ys) [c] new = py_replace xs [c] new @ py_replace ys [c] new"
  by (simp add: py_replace_def replace_from_char)

lemma py_replace_char_spaces:
  "c \<noteq> CHR '' '' \<Longrightarrow> py_replace (replicate n CHR '' '') [c] new = replicate n CHR '' ''"
  by (induction n) (auto simp: py_replace_def replace_from_char)

lemma py_replace_bar_last:
  "pre = [] \<or> last pre \<noteq> CHR '' '' \<Longrightarrow>
   py_replace pre ''|'' textbar = [] \<or> last (py_replace pre ''|'' textbar) \<noteq> CHR '' ''"
proof (cases pre rule: rev_cases)
  case Nil
  then show ?thesis by (simp add: py_replace_def)
next
  case (snoc ys y)
  assume "pre = [] \<or> last pre \<noteq> CHR '' ''"
  with snoc have "y \<noteq> CHR '' ''" by simp
  then show ?thesis
    unfolding snoc by (simp add: py_replace_def replace_from_char textbar_def)
qed

lemma py_replace_bar_hd:
  "post = [] \<or> hd post \<noteq> CHR '' '' \<Longrightarrow>
   py_replace post ''|'' textbar = [] \<or> hd (py_replace post ''|'' textbar) \<noteq> CHR '' ''"
  by (cases post) (auto simp: py_replace_def replace_from_char textbar_def)

text \<open>
  Claim C7. The substitution of line 71 keeps the length of the text. Where the text
  that reaches it holds a run of n spaces, n at least 2, with no space right before and
  none right after, the sanitized text holds n tildes in that place, between the
  sanitized text before the run and the sanitized text after it. With \<open>a  b\<close> left as it
  is by the transliteration, \<open>sanitize_latex\<close> gives \<open>a~~b\<close>.
\<close>

theorem space_runs:
  "length (re_sub_spaces t) = length t \<and>
   (u2l s = pre @ replicate n (CHR '' '') @ post \<and> 2 \<le> n \<and>
    (pre = [] \<or> last pre \<noteq> CHR '' '') \<and> (post = [] \<or> hd post \<noteq> CHR '' '') \<longrightarrow>
      sanitize_latex u2l s =
        re_sub_spaces (py_replace pre ''|'' textbar) @ replicate n (CHR ''~'') @
        re_sub_spaces (py_replace post ''|'' textbar)) \<and>
   (u2l ''a  b'' = ''a  b'' \<longrightarrow> sanitize_latex u2l ''a  b'' = ''a~~b'')"
proof (intro conjI impI)
  show "length (re_sub_spaces t) = length t" by (rule length_re_sub_spaces)
next
  assume h: "u2l s = pre @ replicate n CHR '' '' @ post \<and> 2 \<le> n \<and>
    (pre = [] \<or> last pre \<noteq> CHR '' '') \<and> (post = [] \<or> hd post \<noteq> CHR '' '')"
  let ?bar = "\<lambda>x. py_replace x ''|'' textbar"
  have "?bar (u2l s) = ?bar pre @ replicate n CHR '' '' @ ?bar post"
    using h by (simp add: py_replace_char_append py_replace_char_spaces)
  moreover have "?bar pre = [] \<or> last (?bar pre) \<noteq> CHR '' ''"
    using h by (intro py_replace_bar_last) blast
  moreover have "?bar post = [] \<or> hd (?bar post) \<noteq> CHR '' ''"
    using h by (intro py_replace_bar_hd) blast
  ultimately show "sanitize_latex u2l s =
        re_sub_spaces (?bar pre) @ replicate n (CHR ''~'') @ re_sub_spaces (?bar post)"
    using h by (simp add: sanitize_latex_def re_sub_spaces_append_left re_sub_spaces_run)
next
  assume "u2l ''a  b'' = ''a  b''"
  then show "sanitize_latex u2l ''a  b'' = ''a~~b''"
    by (simp add: sanitize_latex_def py_replace_def)
qed

theorem space_runs_witness:
  "sanitize_latex (\<lambda>x. x) ''SELECT   1 | 2'' =
     re_sub_spaces (py_replace ''SELECT'' ''|'' textbar) @ ''~~~'' @
     re_sub_spaces (py_replace ''1 | 2'' ''|'' textbar) \<and>
   sanitize_latex (\<lambda>x. x) ''a  b'' = ''a~~b''"
  using space_runs [where ?u2l = "\<lambda>x. x" and s = "''SELECT   1 | 2''" and pre = "''SELECT''"
      and n = 3 and post = "''1 | 2''"]
  by (simp add: eval_nat_numeral)

section \<open>The preamble\<close>

text \<open>
  An author that does not hold the text \<open>TITLE\<close> is inserted as it is, and so is every
  title: the template with the two strings in their places, nothing escaped.
\<close>

lemma replace_from_skip:
  assumes "old \<noteq> []" "\<not> sublist old xs" "r \<notin> set old"
  shows "replace_from old new (xs @ r # rest) = xs @ replace_from old new (r # rest)"
  using assms(2)
proof (induction xs)
  case Nil
  then show ?case by simp
next
  case (Cons x xs)
  have np: "\<not> prefix old (x # xs @ r # rest)"
  proof
    assume "prefix old (x # xs @ r # rest)"
    then have "prefix old ((x # xs) @ r # rest)" by simp
    then consider "prefix old (x # xs)" | us where "old = (x # xs) @ us" "prefix us (r # rest)"
      unfolding prefix_append by blast
    then show False
    proof cases
      case 1
      then have "sublist old (x # xs)" by (rule prefix_imp_sublist)
      with Cons.prems show False by simp
    next
      case 2
      show False
      proof (cases us)
        case Nil
        with 2(1) have "sublist old (x # xs)" by simp
        with Cons.prems show False by simp
      next
        case (Cons u us')
        with 2(2) have "u = r" by simp
        with 2(1) Cons have "r \<in> set old" by simp
        with assms(3) show False by simp
      qed
    qed
  qed
  have "\<not> sublist old xs" using Cons.prems by (auto simp: sublist_Cons_right)
  then have "replace_from old new (xs @ r # rest) = xs @ replace_from old new (r # rest)"
    by (rule Cons.IH)
  then show ?case using np by simp
qed

lemma header_text_literal:
  assumes "\<not> sublist ''TITLE'' author"
  shows "header_text author title =
     ''\<newline>'' @
     bsl # ''documentclass{article}\<newline>'' @
     bsl # ''usepackage{minted}\<newline>'' @
     bsl # ''usepackage{geometry}\<newline>'' @
     bsl # ''usepackage{amsmath}\<newline>'' @
     bsl # ''usepackage{tabularx}\<newline>'' @
     ''\<newline>'' @
     bsl # ''geometry{a4paper,left=1cm,right=1cm,top=2cm,bottom=2cm}\<newline>'' @
     bsl # ''author{'' @ author @ ''}\<newline>'' @
     bsl # ''title{'' @ bsl # ''vspace{-2cm} '' @ title @ ''}\<newline>'' @
     bsl # ''date{}\<newline>''"
proof -
  have skip: "\<And>rest. replace_from ''TITLE'' title (author @ CHR ''}'' # rest) =
      author @ replace_from ''TITLE'' title (CHR ''}'' # rest)"
    using assms by (intro replace_from_skip) simp_all
  show ?thesis
    by (simp add: header_text_def header_template_def py_replace_def skip)
qed

text \<open>
  Claim C8. The two replacements of lines 64 and 65 are chained: the second one runs over
  the text the first has produced, and so over the author. With the author \<open>TITLE\<close> and
  the title \<open>Lab 1\<close> the preamble names \<open>Lab 1\<close> as the author: the author string
  is not inserted literally.
\<close>

theorem header_injection:
  "header_text ''TITLE'' ''Lab 1'' =
     ''\<newline>'' @
     bsl # ''documentclass{article}\<newline>'' @
     bsl # ''usepackage{minted}\<newline>'' @
     bsl # ''usepackage{geometry}\<newline>'' @
     bsl # ''usepackage{amsmath}\<newline>'' @
     bsl # ''usepackage{tabularx}\<newline>'' @
     ''\<newline>'' @
     bsl # ''geometry{a4paper,left=1cm,right=1cm,top=2cm,bottom=2cm}\<newline>'' @
     bsl # ''author{Lab 1}\<newline>'' @
     bsl # ''title{'' @ bsl # ''vspace{-2cm} Lab 1}\<newline>'' @
     bsl # ''date{}\<newline>''"
  by (simp add: header_text_def header_template_def py_replace_def)

section \<open>What is printed for a statement\<close>

lemma out_print_out: "out (print_out s w) = out w @ s @ ''\<newline>''"
  by (simp add: print_out_def)

lemma print_out_unlines: "print_out s w = w\<lparr>out := out w @ unlines [s]\<rparr>"
  by (simp add: print_out_def unlines_def)

lemma unlines_append: "unlines (xs @ ys) = unlines xs @ unlines ys"
  by (simp add: unlines_def)

lemma fold_print_row:
  "fold (print_row u2l) rows w =
   w\<lparr>out := out w @ unlines (concat (map (\<lambda>row. [row_line u2l row, bsl # ''hline'']) rows))\<rparr>"
proof (induction rows arbitrary: w)
  case Nil
  then show ?case by (simp add: unlines_def)
next
  case (Cons row rows)
  show ?case
    by (simp add: Cons.IH) (simp add: print_row_def print_out_def unlines_def)
qed

lemma print_table_out:
  "print_table u2l cols rows w =
   w\<lparr>out := out w @ unlines
     ([bsl # ''begin{center}'',
       bsl # ''begin{tabularx}{'' @ bsl # ''textwidth}{|'' @ concat (replicate (length cols) ''X|'') @ ''}'',
       bsl # ''hline'',
       py_join '' & '' (map (header_cell u2l) cols) @ '' '' @ [bsl, bsl],
       bsl # ''hline''] @
      concat (map (\<lambda>row. [row_line u2l row, bsl # ''hline'']) rows) @
      [bsl # ''end{tabularx}'', bsl # ''end{center}''])\<rparr>"
  by (simp add: print_table_def Let_def fold_print_row unlines_append)
     (simp add: print_out_def unlines_def)

lemma header_cell_fun:
  "header_cell u2l =
     (\<lambda>col. bsl # ''multicolumn{1}{|c|}{'' @ bsl # ''textbf{'' @ sanitize_latex u2l col @ ''}}'')"
  by (rule ext) (simp add: header_cell_def)

lemma run_queries_step:
  assumes "query \<noteq> []" "find_parameters (sqlparse_parse rt) query = Inr params"
    "fill_params (set_iter (set_rank rt) params) Map.empty
       (w\<lparr>out := out w @ unlines [bsl # ''begin{minted}[breaklines]{sql}'', query,
                                     bsl # ''end{minted}'']\<rparr>) = (Inr filled, w1)"
    "execute rt db (if suffix '';'' query then rstrip (butlast query) else query) filled =
       (Inr cur, db1)"
  shows "run_queries rt (query # queries) db w =
     (case print_result (unicode_to_latex rt) cur w1 of
        (Some e, w2) \<Rightarrow> (Some e, db1, w2)
      | (None, w2) \<Rightarrow> run_queries rt queries db1 w2)"
proof -
  have m: "print_out (bsl # ''end{minted}'')
         (print_out query (print_out (bsl # ''begin{minted}[breaklines]{sql}'') w)) =
       w\<lparr>out := out w @ unlines [bsl # ''begin{minted}[breaklines]{sql}'', query,
                                    bsl # ''end{minted}'']\<rparr>"
    by (simp add: print_out_def unlines_def)
  show ?thesis
    using assms by (simp add: Let_def m del: suffix_Cons)
qed

text \<open>
  Claim C4, as amended. Take a statement that the loop executes: it is not empty, its
  parameters are found and filled, and \<open>execute\<close> returns a cursor. When the cursor has
  a description and the fetch gives the rows, the loop writes the table: the opening
  lines, the header row with the sanitized column names in bold, a rule, then for every
  row its sanitized cells and a rule, and the closing lines; with no rows, the header row
  and its rule are all the table holds. Without a description, a row count of 1 writes
  \<open>textbf{1} row affected.\<close> behind a backslash, the count in bold markup; a row count
  of 2 or more writes the count in the same markup and \<open>rows affected.\<close>; a row count
  of 0 (or below) writes \<open>Statement executed.\<close> In each case the loop goes on with the
  next statement.
\<close>

theorem outcome_classification:
  "query \<noteq> [] \<and> find_parameters (sqlparse_parse rt) query = Inr params \<and>
   fill_params (set_iter (set_rank rt) params) Map.empty
     (w\<lparr>out := out w @ unlines [bsl # ''begin{minted}[breaklines]{sql}'', query,
                                   bsl # ''end{minted}'']\<rparr>) = (Inr filled, w1) \<and>
   execute rt db (if suffix '';'' query then rstrip (butlast query) else query) filled =
     (Inr cur, db1) \<longrightarrow>
   (description cur = Some cols \<and> fetchall cur = Inr rows \<longrightarrow>
      run_queries rt (query # queries) db w =
        run_queries rt queries db1
         (w1\<lparr>out := out w1 @ unlines
          ([bsl # ''begin{center}'',
            bsl # ''begin{tabularx}{'' @ bsl # ''textwidth}{|'' @
              concat (replicate (length cols) ''X|'') @ ''}'',
            bsl # ''hline'',
            py_join '' & ''
              (map (\<lambda>col. bsl # ''multicolumn{1}{|c|}{'' @ bsl # ''textbf{'' @
                           sanitize_latex (unicode_to_latex rt) col @ ''}}'') cols) @
              '' '' @ [bsl, bsl],
            bsl # ''hline''] @
           concat (map (\<lambda>row. [py_join '' & '' (map (sanitize_latex (unicode_to_latex rt)) row) @
                                  '' '' @ [bsl, bsl],
                                bsl # ''hline'']) rows) @
           [bsl # ''end{tabularx}'', bsl # ''end{center}''])\<rparr>)) \<and>
   (description cur = None \<and> rowcount cur = 1 \<longrightarrow>
      run_queries rt (query # queries) db w =
        run_queries rt queries db1
         (w1\<lparr>out := out w1 @ bsl # ''textbf{1} row affected.\<newline>''\<rparr>)) \<and>
   (description cur = None \<and> 2 \<le> rowcount cur \<longrightarrow>
      run_queries rt (query # queries) db w =
        run_queries rt queries db1
         (w1\<lparr>out := out w1 @ bsl # ''textbf{'' @ show_int (rowcount cur) @
                                ''} rows affected.\<newline>''\<rparr>)) \<and>
   (description cur = None \<and> rowcount cur \<le> 0 \<longrightarrow>
      run_queries rt (query # queries) db w =
        run_queries rt queries db1 (w1\<lparr>out := out w1 @ ''Statement executed.\<newline>''\<rparr>))"
proof (intro impI)
  assume h: "query \<noteq> [] \<and> find_parameters (sqlparse_parse rt) query = Inr params \<and>
   fill_params (set_iter (set_rank rt) params) Map.empty
     (w\<lparr>out := out w @ unlines [bsl # ''begin{minted}[breaklines]{sql}'', query,
                                   bsl # ''end{minted}'']\<rparr>) = (Inr filled, w1) \<and>
   execute rt db (if suffix '';'' query then rstrip (butlast query) else query) filled =
     (Inr cur, db1)"
  then have step: "run_queries rt (query # queries) db w =
     (case print_result (unicode_to_latex rt) cur w1 of
        (Some e, w2) \<Rightarrow> (Some e, db1, w2)
      | (None, w2) \<Rightarrow> run_queries rt queries db1 w2)"
    by (intro run_queries_step) blast+
  have 1: "(description cur = Some cols \<and> fetchall cur = Inr rows \<longrightarrow>
      run_queries rt (query # queries) db w =
        run_queries rt queries db1
         (w1\<lparr>out := out w1 @ unlines
          ([bsl # ''begin{center}'',
            bsl # ''begin{tabularx}{'' @ bsl # ''textwidth}{|'' @
              concat (replicate (length cols) ''X|'') @ ''}'',
            bsl # ''hline'',
            py_join '' & ''
              (map (\<lambda>col. bsl # ''multicolumn{1}{|c|}{'' @ bsl # ''textbf{'' @
                           sanitize_latex (unicode_to_latex rt) col @ ''}}'') cols) @
              '' '' @ [bsl, bsl],
            bsl # ''hline''] @
           concat (map (\<lambda>row. [py_join '' & '' (map (sanitize_latex (unicode_to_latex rt)) row) @
                                  '' '' @ [bsl, bsl],
                                bsl # ''hline'']) rows) @
           [bsl # ''end{tabularx}'', bsl # ''end{center}''])\<rparr>))"
    by (simp add: step print_result_def print_table_out header_cell_fun row_line_def
        del: run_queries.simps)
  have 2: "(description cur = None \<and> rowcount cur = 1 \<longrightarrow>
      run_queries rt (query # queries) db w =
        run_queries rt queries db1
         (w1\<lparr>out := out w1 @ bsl # ''textbf{1} row affected.\<newline>''\<rparr>))"
    by (simp add: step print_result_def affected_line_def show_int_def digit_char_def
        print_out_def del: run_queries.simps)
  have 3: "(description cur = None \<and> 2 \<le> rowcount cur \<longrightarrow>
      run_queries rt (query # queries) db w =
        run_queries rt queries db1
         (w1\<lparr>out := out w1 @ bsl # ''textbf{'' @ show_int (rowcount cur) @
                                ''} rows affected.\<newline>''\<rparr>))"
    by (simp add: step print_result_def affected_line_def print_out_def
        del: run_queries.simps)
  have 4: "(description cur = None \<and> rowcount cur \<le> 0 \<longrightarrow>
      run_queries rt (query # queries) db w =
        run_queries rt queries db1 (w1\<lparr>out := out w1 @ ''Statement executed.\<newline>''\<rparr>))"
    by (simp add: step print_result_def print_out_def del: run_queries.simps)
  from 1 2 3 4 show "(description cur = Some cols \<and> fetchall cur = Inr rows \<longrightarrow>
      run_queries rt (query # queries) db w =
        run_queries rt queries db1
         (w1\<lparr>out := out w1 @ unlines
          ([bsl # ''begin{center}'',
            bsl # ''begin{tabularx}{'' @ bsl # ''textwidth}{|'' @
              concat (replicate (length cols) ''X|'') @ ''}'',
            bsl # ''hline'',
            py_join '' & ''
              (map (\<lambda>col. bsl # ''multicolumn{1}{|c|}{'' @ bsl # ''textbf{'' @
                           sanitize_latex (unicode_to_latex rt) col @ ''}}'') cols) @
              '' '' @ [bsl, bsl],
            bsl # ''hline''] @
           concat (map (\<lambda>row. [py_join '' & '' (map (sanitize_latex (unicode_to_latex rt)) row) @
                                  '' '' @ [bsl, bsl],
                                bsl # ''hline'']) rows) @
           [bsl # ''end{tabularx}'', bsl # ''end{center}''])\<rparr>)) \<and>
   (description cur = None \<and> rowcount cur = 1 \<longrightarrow>
      run_queries rt (query # queries) db w =
        run_queries rt queries db1
         (w1\<lparr>out := out w1 @ bsl # ''textbf{1} row affected.\<newline>''\<rparr>)) \<and>
   (description cur = None \<and> 2 \<le> rowcount cur \<longrightarrow>
      run_queries rt (query # queries) db w =
        run_queries rt queries db1
         (w1\<lparr>out := out w1 @ bsl # ''textbf{'' @ show_int (rowcount cur) @
                                ''} rows affected.\<newline>''\<rparr>)) \<and>
   (description cur = None \<and> rowcount cur \<le> 0 \<longrightarrow>
      run_queries rt (query # queries) db w =
        run_queries rt queries db1 (w1\<lparr>out := out w1 @ ''Statement executed.\<newline>''\<rparr>))"
    by (intro conjI)
qed

theorem outcome_classification_witness:
  "run_queries table_runtime [''SELECT ID, NAME FROM T;''] [] world0 =
     (None, [''SELECT ID, NAME FROM T''],
      world0\<lparr>out := unlines
        [bsl # ''begin{minted}[breaklines]{sql}'', ''SELECT ID, NAME FROM T;'',
         bsl # ''end{minted}'',
         bsl # ''begin{center}'',
         bsl # ''begin{tabularx}{'' @ bsl # ''textwidth}{|X|X|}'',
         bsl # ''hline'',
         bsl # ''multicolumn{1}{|c|}{'' @ bsl # ''textbf{ID}} & '' @
           bsl # ''multicolumn{1}{|c|}{'' @ bsl # ''textbf{NAME}} '' @ [bsl, bsl],
         bsl # ''hline'',
         ''1 & Ann~~Lee '' @ [bsl, bsl],
         bsl # ''hline'',
         ''2 & a'' @ bsl # ''text{'' @ bsl # ''textbar}b '' @ [bsl, bsl],
         bsl # ''hline'',
         bsl # ''end{tabularx}'', bsl # ''end{center}'']\<rparr>) \<and>
   run_queries empty_table_runtime [''SELECT ID, NAME FROM T;''] [] world0 =
     (None, [''SELECT ID, NAME FROM T''],
      world0\<lparr>out := unlines
        [bsl # ''begin{minted}[breaklines]{sql}'', ''SELECT ID, NAME FROM T;'',
         bsl # ''end{minted}'',
         bsl # ''begin{center}'',
         bsl # ''begin{tabularx}{'' @ bsl # ''textwidth}{|X|X|}'',
         bsl # ''hline'',
         bsl # ''multicolumn{1}{|c|}{'' @ bsl # ''textbf{ID}} & '' @
           bsl # ''multicolumn{1}{|c|}{'' @ bsl # ''textbf{NAME}} '' @ [bsl, bsl],
         bsl # ''hline'',
         bsl # ''end{tabularx}'', bsl # ''end{center}'']\<rparr>) \<and>
   run_queries (count_runtime 1) [''DELETE FROM T WHERE ID = 1;''] [] world0 =
     (None, [''DELETE FROM T WHERE ID = 1''],
      world0\<lparr>out := unlines
        [bsl # ''begin{minted}[breaklines]{sql}'', ''DELETE FROM T WHERE ID = 1;'',
         bsl # ''end{minted}'', bsl # ''textbf{1} row affected.'']\<rparr>) \<and>
   run_queries (count_runtime 12) [''DELETE FROM T;''] [] world0 =
     (None, [''DELETE FROM T''],
      world0\<lparr>out := unlines
        [bsl # ''begin{minted}[breaklines]{sql}'', ''DELETE FROM T;'',
         bsl # ''end{minted}'', bsl # ''textbf{12} rows affected.'']\<rparr>) \<and>
   run_queries (count_runtime 0) [''DELETE FROM T WHERE ID = 0;''] [] world0 =
     (None, [''DELETE FROM T WHERE ID = 0''],
      world0\<lparr>out := unlines
        [bsl # ''begin{minted}[breaklines]{sql}'', ''DELETE FROM T WHERE ID = 0;'',
         bsl # ''end{minted}'', ''Statement executed.'']\<rparr>)"
proof -
  let ?m = "\<lambda>q. world0\<lparr>out := out world0 @ unlines [bsl # ''begin{minted}[breaklines]{sql}'', q,
                                   bsl # ''end{minted}'']\<rparr>"
  have a: "run_queries table_runtime [''SELECT ID, NAME FROM T;''] [] world0 =
     (None, [''SELECT ID, NAME FROM T''],
      world0\<lparr>out := unlines
        [bsl # ''begin{minted}[breaklines]{sql}'', ''SELECT ID, NAME FROM T;'',
         bsl # ''end{minted}'',
         bsl # ''begin{center}'',
         bsl # ''begin{tabularx}{'' @ bsl # ''textwidth}{|X|X|}'',
         bsl # ''hline'',
         bsl # ''multicolumn{1}{|c|}{'' @ bsl # ''textbf{ID}} & '' @
           bsl # ''multicolumn{1}{|c|}{'' @ bsl # ''textbf{NAME}} '' @ [bsl, bsl],
         bsl # ''hline'',
         ''1 & Ann~~Lee '' @ [bsl, bsl],
         bsl # ''hline'',
         ''2 & a'' @ bsl # ''text{'' @ bsl # ''textbar}b '' @ [bsl, bsl],
         bsl # ''hline'',
         bsl # ''end{tabularx}'', bsl # ''end{center}'']\<rparr>)"
    using outcome_classification [where rt = table_runtime and query = "''SELECT ID, NAME FROM T;''"
        and params = "[]" and w = world0 and filled = Map.empty
        and ?w1.0 = "?m ''SELECT ID, NAME FROM T;''" and db = "[]"
        and cur = "\<lparr>description = Some [''ID'', ''NAME''],
                fetchall = Inr [[''1'', ''Ann  Lee''], [''2'', ''a|b'']], rowcount = 2\<rparr>"
        and ?db1.0 = "[''SELECT ID, NAME FROM T'']" and cols = "[''ID'', ''NAME'']"
        and rows = "[[''1'', ''Ann  Lee''], [''2'', ''a|b'']]" and queries = "[]"]
    by (simp add: fixture_eval del: run_queries.simps(2))
  have b: "run_queries empty_table_runtime [''SELECT ID, NAME FROM T;''] [] world0 =
     (None, [''SELECT ID, NAME FROM T''],
      world0\<lparr>out := unlines
        [bsl # ''begin{minted}[breaklines]{sql}'', ''SELECT ID, NAME FROM T;'',
         bsl # ''end{minted}'',
         bsl # ''begin{center}'',
         bsl # ''begin{tabularx}{'' @ bsl # ''textwidth}{|X|X|}'',
         bsl # ''hline'',
         bsl # ''multicolumn{1}{|c|}{'' @ bsl # ''textbf{ID}} & '' @
           bsl # ''multicolumn{1}{|c|}{'' @ bsl # ''textbf{NAME}} '' @ [bsl, bsl],
         bsl # ''hline'',
         bsl # ''end{tabularx}'', bsl # ''end{center}'']\<rparr>)"
    using outcome_classification [where rt = empty_table_runtime
        and query = "''SELECT ID, NAME FROM T;''"
        and params = "[]" and w = world0 and filled = Map.empty
        and ?w1.0 = "?m ''SELECT ID, NAME FROM T;''" and db = "[]"
        and cur = "\<lparr>description = Some [''ID'', ''NAME''], fetchall = Inr [], rowcount = 0\<rparr>"
        and ?db1.0 = "[''SELECT ID, NAME FROM T'']" and cols = "[''ID'', ''NAME'']"
        and rows = "[]" and queries = "[]"]
    by (simp add: fixture_eval del: run_queries.simps(2))
  have c: "run_queries (count_runtime 1) [''DELETE FROM T WHERE ID = 1;''] [] world0 =
     (None, [''DELETE FROM T WHERE ID = 1''],
      world0\<lparr>out := unlines
        [bsl # ''begin{minted}[breaklines]{sql}'', ''DELETE FROM T WHERE ID = 1;'',
         bsl # ''end{minted}'', bsl # ''textbf{1} row affected.'']\<rparr>)"
    using outcome_classification [where rt = "count_runtime 1"
        and query = "''DELETE FROM T WHERE ID = 1;''"
        and params = "[]" and w = world0 and filled = Map.empty
        and ?w1.0 = "?m ''DELETE FROM T WHERE ID = 1;''" and db = "[]"
        and cur = "\<lparr>description = None, fetchall = Inr [], rowcount = 1\<rparr>"
        and ?db1.0 = "[''DELETE FROM T WHERE ID = 1'']" and queries = "[]"]
    by (simp add: fixture_eval del: run_queries.simps(2))
  have d: "run_queries (count_runtime 12) [''DELETE FROM T;''] [] world0 =
     (None, [''DELETE FROM T''],
      world0\<lparr>out := unlines
        [bsl # ''begin{minted}[breaklines]{sql}'', ''DELETE FROM T;'',
         bsl # ''end{minted}'', bsl # ''textbf{12} rows affected.'']\<rparr>)"
    using outcome_classification [where rt = "count_runtime 12"
        and query = "''DELETE FROM T;''"
        and params = "[]" and w = world0 and filled = Map.empty
        and ?w1.0 = "?m ''DELETE FROM T;''" and db = "[]"
        and cur = "\<lparr>description = None, fetchall = Inr [], rowcount = 12\<rparr>"
        and ?db1.0 = "[''DELETE FROM T'']" and queries = "[]"]
    by (simp add: fixture_eval del: run_queries.simps(2))
  have e: "run_queries (count_runtime 0) [''DELETE FROM T WHERE ID = 0;''] [] world0 =
     (None, [''DELETE FROM T WHERE ID = 0''],
      world0\<lparr>out := unlines
        [bsl # ''begin{minted}[breaklines]{sql}'', ''DELETE FROM T WHERE ID = 0;'',
         bsl # ''end{minted}'', ''Statement executed.'']\<rparr>)"
    using outcome_classification [where rt = "count_runtime 0"
        and query = "''DELETE FROM T WHERE ID = 0;''"
        and params = "[]" and w = world0 and filled = Map.empty
        and ?w1.0 = "?m ''DELETE FROM T WHERE ID = 0;''" and db = "[]"
        and cur = "\<lparr>description = None, fetchall = Inr [], rowcount = 0\<rparr>"
        and ?db1.0 = "[''DELETE FROM T WHERE ID = 0'']" and queries = "[]"]
    by (simp add: fixture_eval del: run_queries.simps(2))
  show ?thesis by (intro conjI a b c d e)
qed

text \<open>
  The claim as written gives the status line as \<open>1 row affected.\<close> The line that is
  written starts with the bold markup around the count.
\<close>

theorem outcome_classification_counterexample:
  "process_script (count_runtime 1) ''DELETE FROM T WHERE ID = 7;\<newline>'' [] world0 =
     (None, [''DELETE FROM T WHERE ID = 7''],
      world0\<lparr>out := unlines
        [bsl # ''begin{minted}[breaklines]{sql}'', ''DELETE FROM T WHERE ID = 7;'',
         bsl # ''end{minted}'', bsl # ''textbf{1} row affected.'']\<rparr>) \<and>
   bsl # ''textbf{1} row affected.'' \<noteq> ''1 row affected.''"
  by (simp add: fixture_eval)

section \<open>Bind parameters\<close>

lemma fill_params_enough:
  "length ps \<le> length (inp w) \<Longrightarrow> distinct ps \<Longrightarrow>
   \<exists>filled'. fill_params ps filled w =
       (Inr filled', w\<lparr>err := err w @ concat (map (\<lambda>p. '':'' @ p @ ''='') ps),
                       inp := drop (length ps) (inp w)\<rparr>) \<and>
     dom filled' = dom filled \<union> set ps \<and>
     (\<forall>i<length ps. filled' (ps ! i) = Some (inp w ! i)) \<and>
     (\<forall>k. k \<notin> set ps \<longrightarrow> filled' k = filled k)"
proof (induction ps arbitrary: filled w)
  case Nil
  then show ?case by simp
next
  case (Cons p ps)
  from Cons.prems(1) obtain v vs where vs: "inp w = v # vs" by (cases "inp w") auto
  let ?w = "(print_err_noeol ('':'' @ p @ ''='') w)\<lparr>inp := vs\<rparr>"
  have step: "fill_params (p # ps) filled w = fill_params ps (filled(p \<mapsto> v)) ?w"
    using vs by (simp add: py_input_def print_err_noeol_def)
  have "length ps \<le> length (inp ?w)" using Cons.prems(1) vs by simp
  moreover have "distinct ps" using Cons.prems(2) by simp
  ultimately obtain f' where f':
    "fill_params ps (filled(p \<mapsto> v)) ?w =
       (Inr f', ?w\<lparr>err := err ?w @ concat (map (\<lambda>p. '':'' @ p @ ''='') ps),
                     inp := drop (length ps) (inp ?w)\<rparr>)"
    "dom f' = dom (filled(p \<mapsto> v)) \<union> set ps"
    "\<forall>i<length ps. f' (ps ! i) = Some (inp ?w ! i)"
    "\<forall>k. k \<notin> set ps \<longrightarrow> f' k = (filled(p \<mapsto> v)) k"
    using Cons.IH [of ?w "filled(p \<mapsto> v)"] by blast
  have p: "p \<notin> set ps" using Cons.prems(2) by simp
  have 1: "fill_params (p # ps) filled w =
       (Inr f', w\<lparr>err := err w @ concat (map (\<lambda>p. '':'' @ p @ ''='') (p # ps)),
                   inp := drop (length (p # ps)) (inp w)\<rparr>)"
    using step f'(1) vs by (simp add: print_err_noeol_def)
  have 2: "dom f' = dom filled \<union> set (p # ps)" using f'(2) by auto
  have 3: "\<forall>i<length (p # ps). f' ((p # ps) ! i) = Some (inp w ! i)"
  proof (intro allI impI)
    fix i assume "i < length (p # ps)"
    then show "f' ((p # ps) ! i) = Some (inp w ! i)"
      using f'(3,4) p vs by (cases i) auto
  qed
  have 4: "\<forall>k. k \<notin> set (p # ps) \<longrightarrow> f' k = filled k" using f'(4) by auto
  from 1 2 3 4 show ?case by blast
qed

lemma collect_parameters:
  "distinct acc \<Longrightarrow>
   distinct (fold (\<lambda>token parameters.
                     if fst token = Placeholder \<and> startswith (snd token) '':''
                     then set_add (drop 1 (snd token)) parameters else parameters) tokens acc) \<and>
   set (fold (\<lambda>token parameters.
                if fst token = Placeholder \<and> startswith (snd token) '':''
                then set_add (drop 1 (snd token)) parameters else parameters) tokens acc) =
     set acc \<union> {drop 1 v |v. (Placeholder, v) \<in> set tokens \<and> startswith v '':''}"
proof (induction tokens arbitrary: acc)
  case Nil
  then show ?case by simp
next
  case (Cons t ts)
  obtain ty v where t: "t = (ty, v)" by (cases t)
  show ?case
  proof (cases "ty = Placeholder \<and> startswith v '':''")
    case True
    have d: "distinct (set_add (drop 1 v) acc)" using Cons.prems by (simp add: set_add_def)
    have s: "set (set_add (drop 1 v) acc) = insert (drop 1 v) (set acc)"
      by (auto simp: set_add_def)
    from Cons.IH [OF d] True t s show ?thesis by auto
  next
    case False
    from Cons.IH [OF Cons.prems] False t show ?thesis by auto
  qed
qed

lemma find_parameters_parsed:
  assumes "parse query = tokens # others"
  shows "\<exists>params. find_parameters parse query = Inr params \<and> distinct params \<and>
     set params = {drop 1 v |v. (Placeholder, v) \<in> set tokens \<and> startswith v '':''}"
  using assms collect_parameters [of "[]" tokens] by (simp add: find_parameters_def)

lemma set_iter_once: "distinct (set_iter rank s) = distinct s \<and> set (set_iter rank s) = set s \<and>
    length (set_iter rank s) = length s"
  by (simp add: set_iter_def)

text \<open>
  Claim C5. When the parser returns a statement, \<open>find_parameters\<close> collects exactly the
  texts, without their colon, of the tokens typed \<open>Name.Placeholder\<close> that start with a
  colon, each name once, and the loop over the set meets each of them once. A token of
  any other type, such as a string literal that holds \<open>:a and :b\<close>, adds nothing. For
  a statement that is not empty, with a line of input for every name, the loop over the
  statements writes the code block, writes one prompt for each collected name and reads
  one line for it, and executes the statement with exactly the collected names bound,
  each to the line read at its prompt.
\<close>

theorem bind_parameters:
  "(sqlparse_parse rt query = tokens # others \<longrightarrow>
      (\<exists>params. find_parameters (sqlparse_parse rt) query = Inr params \<and> distinct params \<and>
         set params = {drop 1 v |v. (Placeholder, v) \<in> set tokens \<and> startswith v '':''} \<and>
         distinct (set_iter (set_rank rt) params) \<and>
         set (set_iter (set_rank rt) params) = set params)) \<and>
   (fst t \<noteq> Placeholder \<longrightarrow>
      find_parameters (\<lambda>q. [pre @ t # post]) query = find_parameters (\<lambda>q. [pre @ post]) query) \<and>
   (query \<noteq> [] \<and> find_parameters (sqlparse_parse rt) query = Inr params \<and>
    length params \<le> length (inp w) \<longrightarrow>
      (\<exists>filled_params.
         dom filled_params = set params \<and>
         (\<forall>i<length params.
            filled_params (set_iter (set_rank rt) params ! i) = Some (inp w ! i)) \<and>
         run_queries rt (query # queries) db w =
           (case execute rt db (if suffix '';'' query then rstrip (butlast query) else query)
                   filled_params of
              (Inl e, db1) \<Rightarrow>
                (Some (DatabaseError e), db1,
                 w\<lparr>out := out w @ unlines [bsl # ''begin{minted}[breaklines]{sql}'', query,
                                       bsl # ''end{minted}''],
               err := err w @ concat (map (\<lambda>p. '':'' @ p @ ''='') (set_iter (set_rank rt) params)),
               inp := drop (length params) (inp w)\<rparr>)
            | (Inr cur, db1) \<Rightarrow>
                (case print_result (unicode_to_latex rt) cur
                        (w\<lparr>out := out w @ unlines [bsl # ''begin{minted}[breaklines]{sql}'', query,
                                       bsl # ''end{minted}''],
               err := err w @ concat (map (\<lambda>p. '':'' @ p @ ''='') (set_iter (set_rank rt) params)),
               inp := drop (length params) (inp w)\<rparr>) of
                   (Some e, w2) \<Rightarrow> (Some e, db1, w2)
                 | (None, w2) \<Rightarrow> run_queries rt queries db1 w2))))"
proof (intro conjI impI)
  assume p: "sqlparse_parse rt query = tokens # others"
  from find_parameters_parsed [of "sqlparse_parse rt" query tokens others, OF p] obtain params where
    "find_parameters (sqlparse_parse rt) query = Inr params" "distinct params"
    "set params = {drop 1 v |v. (Placeholder, v) \<in> set tokens \<and> startswith v '':''}"
    by blast
  then show "\<exists>params. find_parameters (sqlparse_parse rt) query = Inr params \<and> distinct params \<and>
         set params = {drop 1 v |v. (Placeholder, v) \<in> set tokens \<and> startswith v '':''} \<and>
         distinct (set_iter (set_rank rt) params) \<and>
         set (set_iter (set_rank rt) params) = set params"
    by (auto simp: set_iter_once)
next
  assume "fst t \<noteq> Placeholder"
  then show "find_parameters (\<lambda>q. [pre @ t # post]) query =
      find_parameters (\<lambda>q. [pre @ post]) query"
    by (simp add: find_parameters_def)
next
  assume h: "query \<noteq> [] \<and> find_parameters (sqlparse_parse rt) query = Inr params \<and>
    length params \<le> length (inp w)"
  let ?ps = "set_iter (set_rank rt) params"
  let ?m = "w\<lparr>out := out w @ unlines [bsl # ''begin{minted}[breaklines]{sql}'', query,
                                       bsl # ''end{minted}'']\<rparr>"
  have dp: "distinct params"
  proof (cases "sqlparse_parse rt query")
    case Nil
    with h show ?thesis by (simp add: find_parameters_def)
  next
    case (Cons tokens others)
    from find_parameters_parsed [of "sqlparse_parse rt" query tokens others, OF Cons] h
    show ?thesis by auto
  qed
  have "length ?ps \<le> length (inp ?m)" using h by (simp add: set_iter_once)
  moreover have "distinct ?ps" using dp by (simp add: set_iter_once)
  ultimately obtain f where f:
    "fill_params ?ps Map.empty ?m =
       (Inr f, ?m\<lparr>err := err ?m @ concat (map (\<lambda>p. '':'' @ p @ ''='') ?ps),
                    inp := drop (length ?ps) (inp ?m)\<rparr>)"
    "dom f = dom (Map.empty :: string \<rightharpoonup> string) \<union> set ?ps"
    "\<forall>i<length ?ps. f (?ps ! i) = Some (inp ?m ! i)"
    using fill_params_enough [of ?ps ?m Map.empty] by blast
  have w1: "?m\<lparr>err := err ?m @ concat (map (\<lambda>p. '':'' @ p @ ''='') ?ps),
                inp := drop (length ?ps) (inp ?m)\<rparr> =
      w\<lparr>out := out w @ unlines [bsl # ''begin{minted}[breaklines]{sql}'', query,
                                       bsl # ''end{minted}''],
               err := err w @ concat (map (\<lambda>p. '':'' @ p @ ''='') (set_iter (set_rank rt) params)),
               inp := drop (length params) (inp w)\<rparr>"
    by (simp add: set_iter_once)
  have m: "print_out (bsl # ''end{minted}'')
         (print_out query (print_out (bsl # ''begin{minted}[breaklines]{sql}'') w)) = ?m"
    by (simp add: print_out_def unlines_def)
  have run: "run_queries rt (query # queries) db w =
           (case execute rt db (if suffix '';'' query then rstrip (butlast query) else query)
                   f of
              (Inl e, db1) \<Rightarrow>
                (Some (DatabaseError e), db1,
                 w\<lparr>out := out w @ unlines [bsl # ''begin{minted}[breaklines]{sql}'', query,
                                       bsl # ''end{minted}''],
               err := err w @ concat (map (\<lambda>p. '':'' @ p @ ''='') (set_iter (set_rank rt) params)),
               inp := drop (length params) (inp w)\<rparr>)
            | (Inr cur, db1) \<Rightarrow>
                (case print_result (unicode_to_latex rt) cur
                        (w\<lparr>out := out w @ unlines [bsl # ''begin{minted}[breaklines]{sql}'', query,
                                       bsl # ''end{minted}''],
               err := err w @ concat (map (\<lambda>p. '':'' @ p @ ''='') (set_iter (set_rank rt) params)),
               inp := drop (length params) (inp w)\<rparr>) of
                   (Some e, w2) \<Rightarrow> (Some e, db1, w2)
                 | (None, w2) \<Rightarrow> run_queries rt queries db1 w2))"
    using h f(1) unfolding w1
    by (simp add: Let_def m split: prod.splits sum.splits del: suffix_Cons)
  have 1: "dom f = set params" using f(2) by (simp add: set_iter_once)
  have 2: "\<forall>i<length params. f (?ps ! i) = Some (inp w ! i)"
    using f(3) by (simp add: set_iter_once)
  show "\<exists>filled_params.
         dom filled_params = set params \<and>
         (\<forall>i<length params.
            filled_params (set_iter (set_rank rt) params ! i) = Some (inp w ! i)) \<and>
         run_queries rt (query # queries) db w =
           (case execute rt db (if suffix '';'' query then rstrip (butlast query) else query)
                   filled_params of
              (Inl e, db1) \<Rightarrow>
                (Some (DatabaseError e), db1,
                 w\<lparr>out := out w @ unlines [bsl # ''begin{minted}[breaklines]{sql}'', query,
                                       bsl # ''end{minted}''],
               err := err w @ concat (map (\<lambda>p. '':'' @ p @ ''='') (set_iter (set_rank rt) params)),
               inp := drop (length params) (inp w)\<rparr>)
            | (Inr cur, db1) \<Rightarrow>
                (case print_result (unicode_to_latex rt) cur
                        (w\<lparr>out := out w @ unlines [bsl # ''begin{minted}[breaklines]{sql}'', query,
                                       bsl # ''end{minted}''],
               err := err w @ concat (map (\<lambda>p. '':'' @ p @ ''='') (set_iter (set_rank rt) params)),
               inp := drop (length params) (inp w)\<rparr>) of
                   (Some e, w2) \<Rightarrow> (Some e, db1, w2)
                 | (None, w2) \<Rightarrow> run_queries rt queries db1 w2))"
    by (rule exI [of _ f]) (intro conjI 1 2 run)
qed

theorem bind_parameters_witness:
  "find_parameters (sqlparse_parse echo_runtime) sample_query = Inr [''a'', ''n''] \<and>
   set_iter (set_rank echo_runtime) [''a'', ''n''] = [''n'', ''a''] \<and>
   find_parameters (\<lambda>q. [[(Placeholder, '':n'')] @
       ([''Literal'', ''String'', ''Single''], [CHR 0x27] @ '':a and :b'' @ [CHR 0x27]) # []])
     sample_query = find_parameters (\<lambda>q. [[(Placeholder, '':n'')] @ []]) sample_query \<and>
   run_queries echo_runtime [sample_query] [] (world0\<lparr>inp := [''7'', ''x'', ''rest'']\<rparr>) =
     (None,
      [''SELECT :a, '' @ [CHR 0x27] @ '':a and :b'' @ [CHR 0x27] @ '', :n, :a FROM DUAL''],
      \<lparr>out = unlines
         [bsl # ''begin{minted}[breaklines]{sql}'', sample_query, bsl # ''end{minted}'',
          bsl # ''begin{center}'',
          bsl # ''begin{tabularx}{'' @ bsl # ''textwidth}{|X|X|}'',
          bsl # ''hline'',
          bsl # ''multicolumn{1}{|c|}{'' @ bsl # ''textbf{A}} & '' @
            bsl # ''multicolumn{1}{|c|}{'' @ bsl # ''textbf{N}} '' @ [bsl, bsl],
          bsl # ''hline'',
          ''x & 7 '' @ [bsl, bsl],
          bsl # ''hline'',
          bsl # ''end{tabularx}'', bsl # ''end{center}''],
       err = '':n=:a='', inp = [''rest''], conn_open = False\<rparr>)"
proof -
  let ?w = "world0\<lparr>inp := [''7'', ''x'', ''rest'']\<rparr>"
  let ?lit = "([''Literal'', ''String'', ''Single''], [CHR 0x27] @ '':a and :b'' @ [CHR 0x27])"
  note inst = bind_parameters [where rt = echo_runtime and query = sample_query
      and params = "[''a'', ''n'']" and w = ?w and db = "[]" and queries = "[]"
      and t = ?lit and pre = "[(Placeholder, '':n'')]" and post = "[]"]
  have fp: "find_parameters (sqlparse_parse echo_runtime) sample_query = Inr [''a'', ''n'']"
    by (simp add: find_parameters_def echo_runtime_def stub_runtime_def sample_tokens_def
        Placeholder_def set_add_def)
  have it: "set_iter (set_rank echo_runtime) [''a'', ''n''] = [''n'', ''a'']"
    by (simp add: set_iter_def echo_runtime_def stub_runtime_def)
  have lit: "find_parameters (\<lambda>q. [[(Placeholder, '':n'')] @ ?lit # []]) sample_query =
      find_parameters (\<lambda>q. [[(Placeholder, '':n'')] @ []]) sample_query"
    using inst by (simp add: Placeholder_def)
  have h: "sample_query \<noteq> [] \<and>
      find_parameters (sqlparse_parse echo_runtime) sample_query = Inr [''a'', ''n''] \<and>
      length [''a'', ''n''] \<le> length (inp ?w)"
    by (simp add: fp) (simp add: sample_query_def)
  from inst h obtain f where f:
    "dom f = set [''a'', ''n'']"
    "\<forall>i<length [''a'', ''n''].
        f (set_iter (set_rank echo_runtime) [''a'', ''n''] ! i) = Some (inp ?w ! i)"
    "run_queries echo_runtime [sample_query] [] ?w =
       (case execute echo_runtime []
               (if suffix '';'' sample_query then rstrip (butlast sample_query) else sample_query) f of
          (Inl e, db1) \<Rightarrow>
            (Some (DatabaseError e), db1,
             ?w\<lparr>out := out ?w @ unlines [bsl # ''begin{minted}[breaklines]{sql}'', sample_query,
                                           bsl # ''end{minted}''],
                  err := err ?w @ concat (map (\<lambda>p. '':'' @ p @ ''='')
                                            (set_iter (set_rank echo_runtime) [''a'', ''n''])),
                  inp := drop (length [''a'', ''n'']) (inp ?w)\<rparr>)
        | (Inr cur, db1) \<Rightarrow>
            (case print_result (unicode_to_latex echo_runtime) cur
                    (?w\<lparr>out := out ?w @ unlines [bsl # ''begin{minted}[breaklines]{sql}'',
                                                   sample_query, bsl # ''end{minted}''],
                         err := err ?w @ concat (map (\<lambda>p. '':'' @ p @ ''='')
                                                   (set_iter (set_rank echo_runtime) [''a'', ''n''])),
                         inp := drop (length [''a'', ''n'']) (inp ?w)\<rparr>) of
               (Some e, w2) \<Rightarrow> (Some e, db1, w2)
             | (None, w2) \<Rightarrow> run_queries echo_runtime [] db1 w2))"
    by blast
  have all: "\<forall>i<2. f ([''n'', ''a''] ! i) = Some ([''7'', ''x'', ''rest''] ! i)"
    using f(2) by (simp add: it world0_def)
  from all have "(0::nat) < 2 \<longrightarrow> f ([''n'', ''a''] ! 0) = Some ([''7'', ''x'', ''rest''] ! 0)"
    by (rule spec)
  then have v1: "f ''n'' = Some ''7''" by simp
  from all have "(1::nat) < 2 \<longrightarrow> f ([''n'', ''a''] ! 1) = Some ([''7'', ''x'', ''rest''] ! 1)"
    by (rule spec)
  then have v2: "f ''a'' = Some ''x''" by simp
  have run: "run_queries echo_runtime [sample_query] [] ?w =
     (None,
      [''SELECT :a, '' @ [CHR 0x27] @ '':a and :b'' @ [CHR 0x27] @ '', :n, :a FROM DUAL''],
      \<lparr>out = unlines
         [bsl # ''begin{minted}[breaklines]{sql}'', sample_query, bsl # ''end{minted}'',
          bsl # ''begin{center}'',
          bsl # ''begin{tabularx}{'' @ bsl # ''textwidth}{|X|X|}'',
          bsl # ''hline'',
          bsl # ''multicolumn{1}{|c|}{'' @ bsl # ''textbf{A}} & '' @
            bsl # ''multicolumn{1}{|c|}{'' @ bsl # ''textbf{N}} '' @ [bsl, bsl],
          bsl # ''hline'',
          ''x & 7 '' @ [bsl, bsl],
          bsl # ''hline'',
          bsl # ''end{tabularx}'', bsl # ''end{center}''],
       err = '':n=:a='', inp = [''rest''], conn_open = False\<rparr>)"
    unfolding f(3)
    by (simp add: set_iter_def echo_runtime_def stub_runtime_def bound_def v1 v2 print_result_def
        print_table_out header_cell_fun row_line_def sanitize_latex_def py_replace_def
        unlines_def world0_def sample_query_def suffix_to_prefix rstrip_def str_space_def)
  show ?thesis by (intro conjI fp it lit run)
qed

section \<open>Skipping statements\<close>

lemma run_queries_nonempty:
  "run_queries rt queries db w = run_queries rt (filter (\<lambda>q. q \<noteq> []) queries) db w"
  by (induction rt queries db w rule: run_queries.induct)
     (auto simp: Let_def split: prod.splits sum.splits option.splits)

lemma stripped_blank: "py_strip q = q \<Longrightarrow> list_all str_space q \<longleftrightarrow> q = []"
proof
  assume s: "py_strip q = q" and b: "list_all str_space q"
  from b have "dropWhile str_space q = []" by (simp add: list_all_iff)
  with s show "q = []" by (simp add: py_strip_def rstrip_def)
next
  assume "q = []"
  then show "list_all str_space q" by simp
qed

lemma run_queries_blank:
  assumes "\<forall>q\<in>set queries. py_strip q = q"
  shows "run_queries rt queries db w =
    run_queries rt (filter (\<lambda>q. \<not> list_all str_space q) queries) db w"
proof -
  have "filter (\<lambda>q. \<not> list_all str_space q) queries = filter (\<lambda>q. q \<noteq> []) queries"
    using assms by (intro filter_cong) (auto simp: stripped_blank)
  then show ?thesis using run_queries_nonempty [of rt queries db w] by simp
qed

text \<open>
  Claim C9. The loop passes over an empty statement: nothing is written and nothing is
  executed for it. The statements that \<open>sqlparse.split\<close> returns are stripped, and a
  stripped statement of whitespace only is the empty one; for such statements the run
  is the run over the statements that are neither empty nor made of whitespace only, so
  the others get no code block and are not executed.
\<close>

theorem blank_statements_skipped:
  "run_queries rt ([] # queries) db w = run_queries rt queries db w \<and>
   ((\<forall>q\<in>set queries. py_strip q = q) \<longrightarrow>
      run_queries rt queries db w =
      run_queries rt (filter (\<lambda>q. \<not> list_all str_space q) queries) db w) \<and>
   ((\<forall>q\<in>set (sqlparse_split rt (strip_markers script)). py_strip q = q) \<longrightarrow>
      process_script rt script db w =
      run_queries rt
        (filter (\<lambda>q. \<not> list_all str_space q) (sqlparse_split rt (strip_markers script))) db w)"
proof (intro conjI impI)
  show "run_queries rt ([] # queries) db w = run_queries rt queries db w" by simp
next
  assume "\<forall>q\<in>set queries. py_strip q = q"
  then show "run_queries rt queries db w =
      run_queries rt (filter (\<lambda>q. \<not> list_all str_space q) queries) db w"
    by (rule run_queries_blank)
next
  assume "\<forall>q\<in>set (sqlparse_split rt (strip_markers script)). py_strip q = q"
  then show "process_script rt script db w =
      run_queries rt
        (filter (\<lambda>q. \<not> list_all str_space q) (sqlparse_split rt (strip_markers script))) db w"
    unfolding process_script_def by (rule run_queries_blank)
qed

theorem blank_statements_skipped_witness:
  "process_script stub_runtime ''-- Task 1\<newline>   \<newline>'' [] world0 = (None, [], world0) \<and>
   run_queries stub_runtime ['''', ''SELECT 1 FROM DUAL;'', ''''] [] world0 =
     run_queries stub_runtime [''SELECT 1 FROM DUAL;''] [] world0"
proof -
  have s: "sqlparse_split stub_runtime (strip_markers ''-- Task 1\<newline>   \<newline>'') = ['''']"
    by (simp add: stub_runtime_def strip_markers_def py_strip_def rstrip_def str_space_def)
  have h1: "\<forall>q\<in>set (sqlparse_split stub_runtime (strip_markers ''-- Task 1\<newline>   \<newline>'')).
      py_strip q = q"
    unfolding s by (simp add: py_strip_def rstrip_def)
  have h2: "\<forall>q\<in>set ['''', ''SELECT 1 FROM DUAL;'', '''']. py_strip q = q"
    by (simp add: py_strip_def rstrip_def str_space_def)
  note i1 = blank_statements_skipped [where rt = stub_runtime
      and script = "''-- Task 1\<newline>   \<newline>''" and db = "[]" and w = world0]
  note i2 = blank_statements_skipped [where rt = stub_runtime
      and queries = "['''', ''SELECT 1 FROM DUAL;'', '''']" and db = "[]" and w = world0]
  from i1 h1 have "process_script stub_runtime ''-- Task 1\<newline>   \<newline>'' [] world0 =
      run_queries stub_runtime
        (filter (\<lambda>q. \<not> list_all str_space q)
           (sqlparse_split stub_runtime (strip_markers ''-- Task 1\<newline>   \<newline>''))) [] world0"
    by blast
  then have a: "process_script stub_runtime ''-- Task 1\<newline>   \<newline>'' [] world0 = (None, [], world0)"
    unfolding s by simp
  from i2 h2 have "run_queries stub_runtime ['''', ''SELECT 1 FROM DUAL;'', ''''] [] world0 =
      run_queries stub_runtime
        (filter (\<lambda>q. \<not> list_all str_space q) ['''', ''SELECT 1 FROM DUAL;'', '''']) [] world0"
    by blast
  then have b: "run_queries stub_runtime ['''', ''SELECT 1 FROM DUAL;'', ''''] [] world0 =
     run_queries stub_runtime [''SELECT 1 FROM DUAL;''] [] world0"
    by (simp add: str_space_def del: run_queries.simps)
  show ?thesis by (intro conjI a b)
qed

section \<open>The exit protocol\<close>

lemma main_connected:
  assumes "parse_srcipts content = Inr scripts" "init_oracle_client rt = None" "connect rt = Inr db"
  shows "main rt content author title w =
     (case run_tasks rt scripts db (after_connect author title scripts w) of
        (None, db', w') \<Rightarrow> (Inr True, close_connection (print_out (bsl # ''end{document}'') w'))
      | (Some (DatabaseError e), db', w') \<Rightarrow> (Inr False, close_connection (print_err (error_line e) w'))
      | (Some x, db', w') \<Rightarrow> (Inl x, close_connection w'))"
  using assms by (simp add: main_def Let_def after_connect_def before_connect_def)

lemma main_connect_failed:
  assumes "parse_srcipts content = Inr scripts" "init_oracle_client rt = None" "connect rt = Inl e"
  shows "main rt content author title w = (Inr False, print_err (error_line e) (before_connect scripts w))"
  using assms by (simp add: main_def Let_def before_connect_def)

lemma conn_open_simps:
  "conn_open (print_err s w) = conn_open w"
  "conn_open (print_err_noeol s w) = conn_open w"
  "conn_open (print_out s w) = conn_open w"
  "conn_open (close_connection w) = False"
  by (simp_all add: print_err_def print_err_noeol_def print_out_def close_connection_def)

lemma main_conn_closed: "\<not> conn_open w \<Longrightarrow> \<not> conn_open (snd (main rt content author title w))"
proof (cases "parse_srcipts content")
  case (Inl e)
  assume "\<not> conn_open w"
  with Inl show ?thesis by (simp add: main_def)
next
  case (Inr scripts)
  assume c: "\<not> conn_open w"
  show ?thesis
  proof (cases "init_oracle_client rt")
    case (Some e)
    with Inr c show ?thesis by (simp add: main_def conn_open_simps)
  next
    case None
    show ?thesis
    proof (cases "connect rt")
      case (Inl e)
      from main_connect_failed [OF Inr None Inl] c show ?thesis
        by (simp add: conn_open_simps before_connect_def)
    next
      case (Inr db)
      from main_connected [OF \<open>parse_srcipts content = Inr scripts\<close> None Inr] show ?thesis
        by (simp add: conn_open_simps split: prod.splits option.splits exn.splits)
    qed
  qed
qed

lemma run_queries_append:
  "run_queries rt (qs1 @ qs2) db w =
     (case run_queries rt qs1 db w of
        (None, db', w') \<Rightarrow> run_queries rt qs2 db' w'
      | (Some x, db', w') \<Rightarrow> (Some x, db', w'))"
  by (induction rt qs1 db w rule: run_queries.induct)
     (auto simp: Let_def split: prod.splits sum.splits option.splits)

lemma run_tasks_append:
  "run_tasks rt (ts1 @ ts2) db w =
     (case run_tasks rt ts1 db w of
        (None, db', w') \<Rightarrow> run_tasks rt ts2 db' w'
      | (Some x, db', w') \<Rightarrow> (Some x, db', w'))"
  by (induction rt ts1 db w rule: run_tasks.induct)
     (auto simp: Let_def split: prod.splits sum.splits option.splits)

lemma parse_two_tasks:
  "parse_srcipts two_tasks =
     Inr [(1, [''-- Task 1\<newline>'', ''SELECT 1 FROM DUAL;\<newline>'']),
          (2, [''-- Task 2\<newline>'', ''SELECT 2 FROM DUAL;\<newline>''])]"
  by (simp add: two_tasks_def parse_eval)

lemma run_broken:
  "fst (run_tasks broken_runtime
      [(1, [''-- Task 1\<newline>'', ''SELECT 1 FROM DUAL;\<newline>'']),
       (2, [''-- Task 2\<newline>'', ''SELECT 2 FROM DUAL;\<newline>''])] []
      (after_connect ''A'' ''T''
         [(1, [''-- Task 1\<newline>'', ''SELECT 1 FROM DUAL;\<newline>'']),
          (2, [''-- Task 2\<newline>'', ''SELECT 2 FROM DUAL;\<newline>''])] world0)) =
   Some (DatabaseError no_table)"
  by (simp add: run_eval)

lemma run_stub:
  "fst (run_tasks stub_runtime
      [(1, [''-- Task 1\<newline>'', ''SELECT 1 FROM DUAL;\<newline>'']),
       (2, [''-- Task 2\<newline>'', ''SELECT 2 FROM DUAL;\<newline>''])] []
      (after_connect ''A'' ''T''
         [(1, [''-- Task 1\<newline>'', ''SELECT 1 FROM DUAL;\<newline>'']),
          (2, [''-- Task 2\<newline>'', ''SELECT 2 FROM DUAL;\<newline>''])] world0)) =
   None"
  by (simp add: run_eval)

text \<open>
  Claim C6, as amended. When connecting raises a database error, the program writes the
  error's code and message to the diagnostic stream and ends with \<open>exit(-1)\<close>; no
  connection was opened. When a database error comes out of the loop over the tasks, the
  program writes the code and the message, closes the connection, and ends with
  \<open>exit(-1)\<close>. An exception in a task or in a statement ends the loop at once, whatever
  was to follow. When nothing raises, the program closes the connection and ends with
  status 0. On every run that starts without a connection, no connection is open at the
  end.
\<close>

theorem error_exit_protocol:
  "(parse_srcipts content = Inr scripts \<and> init_oracle_client rt = None \<and> connect rt = Inl e \<longrightarrow>
      program rt content author title w =
        (Exit (- 1), print_err (error_line e) (before_connect scripts w))) \<and>
   (parse_srcipts content = Inr scripts \<and> init_oracle_client rt = None \<and> connect rt = Inr db \<and>
    fst (run_tasks rt scripts db (after_connect author title scripts w)) = Some (DatabaseError e) \<longrightarrow>
      program rt content author title w =
        (Exit (- 1),
         close_connection (print_err (error_line e)
           (snd (snd (run_tasks rt scripts db (after_connect author title scripts w))))))) \<and>
   (parse_srcipts content = Inr scripts \<and> init_oracle_client rt = None \<and> connect rt = Inr db \<and>
    fst (run_tasks rt scripts db (after_connect author title scripts w)) = None \<longrightarrow>
      program rt content author title w =
        (Exit 0,
         close_connection (print_out (bsl # ''end{document}'')
           (snd (snd (run_tasks rt scripts db (after_connect author title scripts w))))))) \<and>
   (run_tasks rt ts1 db w = (None, db1, w1) \<and> run_tasks rt [t] db1 w1 = (Some x, db2, w2) \<longrightarrow>
      run_tasks rt (ts1 @ t # ts2) db w = (Some x, db2, w2)) \<and>
   (run_queries rt qs1 db w = (None, db1, w1) \<and> run_queries rt [q] db1 w1 = (Some x, db2, w2) \<longrightarrow>
      run_queries rt (qs1 @ q # qs2) db w = (Some x, db2, w2)) \<and>
   (\<not> conn_open w \<longrightarrow> \<not> conn_open (snd (program rt content author title w))) \<and>
   err (close_connection (print_err (error_line e) w)) =
     err w @ ''Database error occurred: '' @ show_int (code e) @ '' - '' @ message e @
     ''\<newline>Connection closed.\<newline>''"
proof (intro conjI impI)
  assume "parse_srcipts content = Inr scripts \<and> init_oracle_client rt = None \<and> connect rt = Inl e"
  then show "program rt content author title w =
        (Exit (- 1), print_err (error_line e) (before_connect scripts w))"
    by (simp add: program_def main_connect_failed)
next
  assume h: "parse_srcipts content = Inr scripts \<and> init_oracle_client rt = None \<and> connect rt = Inr db \<and>
    fst (run_tasks rt scripts db (after_connect author title scripts w)) = Some (DatabaseError e)"
  then have m: "main rt content author title w =
     (case run_tasks rt scripts db (after_connect author title scripts w) of
        (None, db', w') \<Rightarrow> (Inr True, close_connection (print_out (bsl # ''end{document}'') w'))
      | (Some (DatabaseError e), db', w') \<Rightarrow> (Inr False, close_connection (print_err (error_line e) w'))
      | (Some x, db', w') \<Rightarrow> (Inl x, close_connection w'))"
    by (intro main_connected) simp_all
  obtain r db' w' where r: "run_tasks rt scripts db (after_connect author title scripts w) = (r, db', w')"
    by (cases "run_tasks rt scripts db (after_connect author title scripts w)") auto
  with h have "r = Some (DatabaseError e)" by simp
  with r m show "program rt content author title w =
        (Exit (- 1),
         close_connection (print_err (error_line e)
           (snd (snd (run_tasks rt scripts db (after_connect author title scripts w))))))"
    by (simp add: program_def)
next
  assume h: "parse_srcipts content = Inr scripts \<and> init_oracle_client rt = None \<and> connect rt = Inr db \<and>
    fst (run_tasks rt scripts db (after_connect author title scripts w)) = None"
  then have m: "main rt content author title w =
     (case run_tasks rt scripts db (after_connect author title scripts w) of
        (None, db', w') \<Rightarrow> (Inr True, close_connection (print_out (bsl # ''end{document}'') w'))
      | (Some (DatabaseError e), db', w') \<Rightarrow> (Inr False, close_connection (print_err (error_line e) w'))
      | (Some x, db', w') \<Rightarrow> (Inl x, close_connection w'))"
    by (intro main_connected) simp_all
  obtain r db' w' where r: "run_tasks rt scripts db (after_connect author title scripts w) = (r, db', w')"
    by (cases "run_tasks rt scripts db (after_connect author title scripts w)") auto
  with h have "r = None" by simp
  with r m show "program rt content author title w =
        (Exit 0,
         close_connection (print_out (bsl # ''end{document}'')
           (snd (snd (run_tasks rt scripts db (after_connect author title scripts w))))))"
    by (simp add: program_def)
next
  assume "run_tasks rt ts1 db w = (None, db1, w1) \<and> run_tasks rt [t] db1 w1 = (Some x, db2, w2)"
  then show "run_tasks rt (ts1 @ t # ts2) db w = (Some x, db2, w2)"
    using run_tasks_append [of rt ts1 "[t] @ ts2" db w] run_tasks_append [of rt "[t]" ts2 db1 w1]
    by simp
next
  assume "run_queries rt qs1 db w = (None, db1, w1) \<and> run_queries rt [q] db1 w1 = (Some x, db2, w2)"
  then show "run_queries rt (qs1 @ q # qs2) db w = (Some x, db2, w2)"
    using run_queries_append [of rt qs1 "[q] @ qs2" db w] run_queries_append [of rt "[q]" qs2 db1 w1]
    by simp
next
  assume "\<not> conn_open w"
  then have "\<not> conn_open (snd (main rt content author title w))" by (rule main_conn_closed)
  moreover have "snd (program rt content author title w) = snd (main rt content author title w)"
    by (cases "main rt content author title w") (auto simp: program_def split: sum.splits)
  ultimately show "\<not> conn_open (snd (program rt content author title w))" by simp
next
  show "err (close_connection (print_err (error_line e) w)) =
     err w @ ''Database error occurred: '' @ show_int (code e) @ '' - '' @ message e @
     ''\<newline>Connection closed.\<newline>''"
    by (simp add: close_connection_def print_err_def error_line_def)
qed

theorem error_exit_protocol_witness:
  "program (stub_runtime\<lparr>connect := Inl refused\<rparr>) two_tasks ''A'' ''T'' world0 =
     (Exit (- 1),
      world0\<lparr>err := ''Scripts found: 2\<newline>Connecting to the database... '' @
                      ''Database error occurred: 12541 - ORA-12541: TNS:no listener\<newline>''\<rparr>) \<and>
   fst (program broken_runtime two_tasks ''A'' ''T'' world0) = Exit (- 1) \<and>
   err (snd (program broken_runtime two_tasks ''A'' ''T'' world0)) =
     ''Scripts found: 2\<newline>Connecting to the database... connected!\<newline>Running task 1...'' @
     [CHR 0x09] @
     ''Database error occurred: 942 - ORA-00942: table or view does not exist\<newline>'' @
     ''Connection closed.\<newline>'' \<and>
   \<not> conn_open (snd (program broken_runtime two_tasks ''A'' ''T'' world0)) \<and>
   fst (program stub_runtime two_tasks ''A'' ''T'' world0) = Exit 0 \<and>
   \<not> conn_open (snd (program stub_runtime two_tasks ''A'' ''T'' world0))"
proof -
  let ?ts = "[(1::int, [''-- Task 1\<newline>'', ''SELECT 1 FROM DUAL;\<newline>'']),
              (2, [''-- Task 2\<newline>'', ''SELECT 2 FROM DUAL;\<newline>''])]"
  have c0: "\<not> conn_open world0" by (simp add: world0_def)
  have 1: "program (stub_runtime\<lparr>connect := Inl refused\<rparr>) two_tasks ''A'' ''T'' world0 =
     (Exit (- 1), print_err (error_line refused) (before_connect ?ts world0))"
    using error_exit_protocol [where rt = "stub_runtime\<lparr>connect := Inl refused\<rparr>"
        and content = two_tasks and scripts = ?ts and e = refused and author = "''A''"
        and title = "''T''" and w = world0]
    by (simp add: parse_two_tasks stub_runtime_def)
  have 2: "program broken_runtime two_tasks ''A'' ''T'' world0 =
     (Exit (- 1), close_connection (print_err (error_line no_table)
        (snd (snd (run_tasks broken_runtime ?ts [] (after_connect ''A'' ''T'' ?ts world0))))))"
    using error_exit_protocol [where rt = broken_runtime
        and content = two_tasks and scripts = ?ts and e = no_table and author = "''A''"
        and title = "''T''" and w = world0 and db = "[]"] run_broken
    by (simp add: parse_two_tasks) (simp add: stub_runtime_def broken_runtime_def)
  have 3: "program stub_runtime two_tasks ''A'' ''T'' world0 =
     (Exit 0, close_connection (print_out (bsl # ''end{document}'')
        (snd (snd (run_tasks stub_runtime ?ts [] (after_connect ''A'' ''T'' ?ts world0))))))"
    using error_exit_protocol [where rt = stub_runtime
        and content = two_tasks and scripts = ?ts and author = "''A''"
        and title = "''T''" and w = world0 and db = "[]"] run_stub
    by (simp add: parse_two_tasks) (simp add: stub_runtime_def)
  have 4: "\<not> conn_open (snd (program broken_runtime two_tasks ''A'' ''T'' world0))"
    using error_exit_protocol [where rt = broken_runtime and content = two_tasks
        and author = "''A''" and title = "''T''" and w = world0] c0 by blast
  have 5: "\<not> conn_open (snd (program stub_runtime two_tasks ''A'' ''T'' world0))"
    using error_exit_protocol [where rt = stub_runtime and content = two_tasks
        and author = "''A''" and title = "''T''" and w = world0] c0 by blast
  have e1: "print_err (error_line refused) (before_connect ?ts world0) =
      world0\<lparr>err := ''Scripts found: 2\<newline>Connecting to the database... '' @
                      ''Database error occurred: 12541 - ORA-12541: TNS:no listener\<newline>''\<rparr>"
    by (simp add: run_eval refused_def)
  have e2: "err (close_connection (print_err (error_line no_table)
        (snd (snd (run_tasks broken_runtime ?ts [] (after_connect ''A'' ''T'' ?ts world0)))))) =
     ''Scripts found: 2\<newline>Connecting to the database... connected!\<newline>Running task 1...'' @
     [CHR 0x09] @
     ''Database error occurred: 942 - ORA-00942: table or view does not exist\<newline>'' @
     ''Connection closed.\<newline>''"
    by (simp add: run_eval no_table_def)
  have a: "program (stub_runtime\<lparr>connect := Inl refused\<rparr>) two_tasks ''A'' ''T'' world0 =
     (Exit (- 1),
      world0\<lparr>err := ''Scripts found: 2\<newline>Connecting to the database... '' @
                      ''Database error occurred: 12541 - ORA-12541: TNS:no listener\<newline>''\<rparr>)"
    by (simp only: 1 e1)
  have b: "fst (program broken_runtime two_tasks ''A'' ''T'' world0) = Exit (- 1)"
    by (simp only: 2 fst_conv)
  have c: "err (snd (program broken_runtime two_tasks ''A'' ''T'' world0)) =
     ''Scripts found: 2\<newline>Connecting to the database... connected!\<newline>Running task 1...'' @
     [CHR 0x09] @
     ''Database error occurred: 942 - ORA-00942: table or view does not exist\<newline>'' @
     ''Connection closed.\<newline>''"
    by (simp only: 2 snd_conv e2)
  have d: "fst (program stub_runtime two_tasks ''A'' ''T'' world0) = Exit 0"
    by (simp only: 3 fst_conv)
  show ?thesis by (intro conjI a b c 4 d 5)
qed

text \<open>
  The claim as written gives status 0 to every run without a database error. A marker
  line whose number \<open>int\<close> refuses ends the run with a traceback before the database is
  touched, and the status is 1.
\<close>

theorem exit_status_counterexample:
  "program stub_runtime ''-- Task one\<newline>SELECT 1 FROM DUAL;\<newline>'' ''A'' ''T'' world0 =
     (Traceback ValueError, world0) \<and>
   exit_status (Traceback ValueError) = 1"
  by (simp add: program_def main_def parse_eval)

end
